theory Spec2Isabelle
  imports Main "HOL-Library.Sublist"
begin

section \<open>Strings\<close>

text \<open>
  Python strings are modelled as HOL strings, a character standing for the code point of
  its number: the model speaks about text of code points below 256, and the character
  tables below are Python's for these code points. (Python's own strings go on to
  U+10FFFF; there the classes \<^verbatim>\<open>\s\<close> and \<^verbatim>\<open>\w\<close> and \<^verbatim>\<open>str.lower\<close> have further members,
  which this model cannot name.)
\<close>

definition ascii_uppercase :: string where
  "ascii_uppercase = ''ABCDEFGHIJKLMNOPQRSTUVWXYZ''"

definition ascii_lowercase :: string where
  "ascii_lowercase = ''abcdefghijklmnopqrstuvwxyz''"

text \<open>
  The other characters below 256 that \<^verbatim>\<open>str.lower\<close> changes, U+00C0 to U+00DE without
  the multiplication sign U+00D7, and their images, U+00E0 to U+00FE without U+00F7.
\<close>

definition latin1_uppercase :: string where
  "latin1_uppercase =
     [CHR 0xC0, CHR 0xC1, CHR 0xC2, CHR 0xC3, CHR 0xC4, CHR 0xC5, CHR 0xC6, CHR 0xC7,
      CHR 0xC8, CHR 0xC9, CHR 0xCA, CHR 0xCB, CHR 0xCC, CHR 0xCD, CHR 0xCE, CHR 0xCF,
      CHR 0xD0, CHR 0xD1, CHR 0xD2, CHR 0xD3, CHR 0xD4, CHR 0xD5, CHR 0xD6,
      CHR 0xD8, CHR 0xD9, CHR 0xDA, CHR 0xDB, CHR 0xDC, CHR 0xDD, CHR 0xDE]"

definition latin1_lowercase :: string where
  "latin1_lowercase =
     [CHR 0xE0, CHR 0xE1, CHR 0xE2, CHR 0xE3, CHR 0xE4, CHR 0xE5, CHR 0xE6, CHR 0xE7,
      CHR 0xE8, CHR 0xE9, CHR 0xEA, CHR 0xEB, CHR 0xEC, CHR 0xED, CHR 0xEE, CHR 0xEF,
      CHR 0xF0, CHR 0xF1, CHR 0xF2, CHR 0xF3, CHR 0xF4, CHR 0xF5, CHR 0xF6,
      CHR 0xF8, CHR 0xF9, CHR 0xFA, CHR 0xFB, CHR 0xFC, CHR 0xFD, CHR 0xFE]"

text \<open>
  The characters for which \<^verbatim>\<open>str.isspace\<close> holds: tab, line feed, vertical tab, form
  feed, carriage return, the four separators 0x1C to 0x1F, the space, the next-line
  control U+0085 and the no-break space U+00A0. The same set is what \<^verbatim>\<open>\s\<close> matches in
  a pattern over \<^verbatim>\<open>str\<close> and what \<^verbatim>\<open>str.strip()\<close> removes.
\<close>

definition whitespace :: string where
  "whitespace = [CHR 0x09, CHR 0x0A, CHR 0x0B, CHR 0x0C, CHR 0x0D,
                 CHR 0x1C, CHR 0x1D, CHR 0x1E, CHR 0x1F, CHR 0x20, CHR 0x85, CHR 0xA0]"

text \<open>The ASCII letters, \<^verbatim>\<open>A-Z\<close> and \<^verbatim>\<open>a-z\<close>, and the ASCII digits, by code point.\<close>

definition is_ascii_letter :: "char \<Rightarrow> bool" where
  "is_ascii_letter c \<longleftrightarrow> (65::nat) \<le> of_char c \<and> (of_char c :: nat) \<le> 90
     \<or> (97::nat) \<le> of_char c \<and> (of_char c :: nat) \<le> 122"

definition is_digit :: "char \<Rightarrow> bool" where
  "is_digit c \<longleftrightarrow> (48::nat) \<le> of_char c \<and> (of_char c :: nat) \<le> 57"

definition is_space :: "char \<Rightarrow> bool" where
  "is_space c \<longleftrightarrow> c \<in> set whitespace"

text \<open>
  The characters that \<^verbatim>\<open>\w\<close> matches in a pattern over \<^verbatim>\<open>str\<close>, those for which
  \<^verbatim>\<open>str.isalnum\<close> holds and the underscore: beside the ASCII letters and digits these are
  the ordinal indicators U+00AA and U+00BA, the superscripts U+00B2, U+00B3 and U+00B9,
  the micro sign U+00B5, the fractions U+00BC to U+00BE, and the letters from U+00C0 on
  without the signs U+00D7 and U+00F7.
\<close>

definition latin1_alnum :: string where
  "latin1_alnum =
     [CHR 0xAA, CHR 0xB2, CHR 0xB3, CHR 0xB5, CHR 0xB9, CHR 0xBA, CHR 0xBC, CHR 0xBD,
      CHR 0xBE]"

definition is_word :: "char \<Rightarrow> bool" where
  "is_word c \<longleftrightarrow> is_ascii_letter c \<or> is_digit c \<or> c = CHR ''_'' \<or> c \<in> set latin1_alnum
     \<or> (192::nat) \<le> of_char c \<and> c \<noteq> CHR 0xD7 \<and> c \<noteq> CHR 0xF7"

definition lower_char :: "char \<Rightarrow> char" where
  "lower_char c =
     (case map_of (zip (ascii_uppercase @ latin1_uppercase)
                       (ascii_lowercase @ latin1_lowercase)) c of
        Some d \<Rightarrow> d
      | None \<Rightarrow> c)"

text \<open>\<^verbatim>\<open>s.lower()\<close>\<close>

definition lower :: "string \<Rightarrow> string" where
  "lower s = map lower_char s"

text \<open>\<^verbatim>\<open>s.strip()\<close>\<close>

definition strip :: "string \<Rightarrow> string" where
  "strip s = rev (dropWhile is_space (rev (dropWhile is_space s)))"

text \<open>\<^verbatim>\<open>s.startswith(q)\<close> and \<^verbatim>\<open>q in s\<close>, the latter as a scan over the start positions.\<close>

fun startswith :: "string \<Rightarrow> string \<Rightarrow> bool" where
  "startswith [] s = True"
| "startswith (a # q) [] = False"
| "startswith (a # q) (b # s) = (a = b \<and> startswith q s)"

fun str_in :: "string \<Rightarrow> string \<Rightarrow> bool" where
  "str_in q [] = (q = [])"
| "str_in q (x # s) = (startswith q (x # s) \<or> str_in q s)"

section \<open>Regular expressions\<close>

text \<open>
  The three patterns of the program are sequences of anchors and of character sets under
  at most one quantifier, so that is the pattern language modelled. A set is a list of
  ranges, single characters and the classes \<^verbatim>\<open>\s\<close> and \<^verbatim>\<open>\w\<close>.
\<close>

datatype cset_item = Range char char | Single char | Whitespace | WordChar

datatype token = Bol | Eol | One "cset_item list" | Opt "cset_item list"
  | Star "cset_item list" | Plus "cset_item list"

fun in_item :: "char \<Rightarrow> cset_item \<Rightarrow> bool" where
  "in_item c (Range a b) = ((of_char a :: nat) \<le> of_char c \<and> (of_char c :: nat) \<le> of_char b)"
| "in_item c (Single a) = (c = a)"
| "in_item c Whitespace = is_space c"
| "in_item c WordChar = is_word c"

definition in_cset :: "char \<Rightarrow> cset_item list \<Rightarrow> bool" where
  "in_cset c cs = list_ex (in_item c) cs"

text \<open>
  \<open>re_run p st s\<close>: can the pattern \<open>p\<close> be matched at the front of \<open>s\<close>? The flag
  \<open>st\<close> says that no character has been consumed yet, which is where \<^verbatim>\<open>^\<close> matches;
  \<^verbatim>\<open>$\<close> matches at the end of the string and just before a line feed that ends the
  string. Every way of sharing the characters among the quantifiers is tried, which is what
  the backtracking of \<^verbatim>\<open>re\<close> amounts to for the truth value of a match.
\<close>

fun re_run :: "token list \<Rightarrow> bool \<Rightarrow> string \<Rightarrow> bool" where
  "re_run [] st s = True"
| "re_run (Bol # p) st s = (st \<and> re_run p st s)"
| "re_run (Eol # p) st s = ((s = [] \<or> s = [CHR 0x0A]) \<and> re_run p st s)"
| "re_run (One cs # p) st [] = False"
| "re_run (One cs # p) st (x # s) = (in_cset x cs \<and> re_run p False s)"
| "re_run (Opt cs # p) st [] = re_run p st []"
| "re_run (Opt cs # p) st (x # s) =
     ((in_cset x cs \<and> re_run p False s) \<or> re_run p st (x # s))"
| "re_run (Star cs # p) st [] = re_run p st []"
| "re_run (Star cs # p) st (x # s) =
     ((in_cset x cs \<and> re_run (Star cs # p) False s) \<or> re_run p st (x # s))"
| "re_run (Plus cs # p) st [] = False"
| "re_run (Plus cs # p) st (x # s) = (in_cset x cs \<and> re_run (Star cs # p) False s)"

text \<open>\<^verbatim>\<open>bool(re.match(p, s))\<close>\<close>

definition re_match :: "token list \<Rightarrow> string \<Rightarrow> bool" where
  "re_match p s = re_run p True s"

section \<open>Validators\<close>

text \<open>\<^verbatim>\<open>^[A-Za-z\s]+$\<close>\<close>

definition name_pattern :: "token list" where
  "name_pattern =
     [Bol, Plus [Range CHR ''A'' CHR ''Z'', Range CHR ''a'' CHR ''z'', Whitespace], Eol]"

text \<open>\<^verbatim>\<open>^\+?[0-9]*$\<close>\<close>

definition phone_pattern :: "token list" where
  "phone_pattern = [Bol, Opt [Single CHR ''+''], Star [Range CHR ''0'' CHR ''9''], Eol]"

text \<open>\<^verbatim>\<open>^[\w\.-]+@[\w\.-]+\.\w+$\<close>\<close>

definition email_pattern :: "token list" where
  "email_pattern =
     [Bol, Plus [WordChar, Single CHR ''.'', Single CHR ''-''], One [Single CHR ''@''],
      Plus [WordChar, Single CHR ''.'', Single CHR ''-''], One [Single CHR ''.''],
      Plus [WordChar], Eol]"

definition is_valid_name :: "string \<Rightarrow> bool" where
  "is_valid_name name = re_match name_pattern name"

definition is_valid_phone :: "string \<Rightarrow> bool" where
  "is_valid_phone phone = re_match phone_pattern phone"

definition is_valid_email :: "string \<Rightarrow> bool" where
  "is_valid_email email = re_match email_pattern email"



section \<open>Records, the persisted file and the console\<close>

text \<open>\<^verbatim>\<open>class Contact\<close>: four string attributes and no equality of its own.\<close>

record contact =
  first_name :: string
  last_name :: string
  phone_number :: string
  email :: string

text \<open>
  What \<^verbatim>\<open>json.load\<close> returns. An object is the decoded dict, as its items in insertion
  order, so its keys do not repeat. Members of objects are modelled as strings: these are
  the objects the program writes, and every operation of the program on a field of a
  Contact is a string operation. Numbers are integers.
\<close>

datatype json = JNull | JBool bool | JNumber int | JString string
  | JArray "json list" | JObject "(string \<times> string) list"

text \<open>
  The file named by \<^verbatim>\<open>self.filename\<close>: absent, holding bytes that are no text in the
  encoding of \<^verbatim>\<open>open\<close>, holding a text that is not JSON (carried along, never parsed),
  or holding a JSON document. Encoding and decoding of the text are the \<^verbatim>\<open>json\<close>
  library's and are not modelled: the file holds the document itself, so a document
  written is the document read back. Other failures of the file system are not modelled
  either.
\<close>

datatype file_state = Missing | Undecodable | Garbled string | Document json

datatype error = FileNotFoundError | JSONDecodeError | UnicodeDecodeError | TypeError
  | IndexError | ValueError | EOFError

text \<open>
  What the program writes to the console: a printed line, a line printed by
  \<^verbatim>\<open>print_in_color\<close> with its colour name, the prompt of an \<^verbatim>\<open>input\<close> call, and a
  table handed to \<^verbatim>\<open>tabulate\<close> (headers and rows).
\<close>

datatype console = Line string | Colored string string | Prompt string
  | Table "string list" "string list list"

text \<open>
  Contact objects live in a heap and are referred to by their address, so that two
  objects with equal attributes remain two objects; \<open>contacts\<close> is the list
  \<^verbatim>\<open>self.contacts\<close> of references. \<open>stdin\<close> holds the lines not yet read.
\<close>

type_synonym ref = nat

record world =
  heap :: "contact list"
  contacts :: "ref list"
  file_contents :: file_state
  stdin :: "string list"
  stdout :: "console list"

type_synonym 'a io = "world \<Rightarrow> (error + 'a) \<times> world"

definition return :: "'a \<Rightarrow> 'a io" where
  "return x w = (Inr x, w)"

definition raise :: "error \<Rightarrow> 'a io" where
  "raise e w = (Inl e, w)"

definition bind :: "'a io \<Rightarrow> ('a \<Rightarrow> 'b io) \<Rightarrow> 'b io" where
  "bind m f w = (case m w of (Inl e, w') \<Rightarrow> (Inl e, w') | (Inr x, w') \<Rightarrow> f x w')"

definition lift :: "error + 'a \<Rightarrow> 'a io" where
  "lift r w = (r, w)"

definition emit :: "console \<Rightarrow> world \<Rightarrow> world" where
  "emit x w = w\<lparr>stdout := stdout w @ [x]\<rparr>"

definition print :: "string \<Rightarrow> unit io" where
  "print text w = (Inr (), emit (Line text) w)"

definition print_in_color :: "string \<Rightarrow> string \<Rightarrow> unit io" where
  "print_in_color text color w = (Inr (), emit (Colored text color) w)"

text \<open>
  \<^verbatim>\<open>input(prompt)\<close>: writes the prompt, if there is one, and returns the next line;
  at the end of the input it raises \<^verbatim>\<open>EOFError\<close>.
\<close>

definition input :: "string \<Rightarrow> string io" where
  "input prompt w =
     (let w' = (if prompt = [] then w else emit (Prompt prompt) w)
      in case stdin w' of
           [] \<Rightarrow> (Inl EOFError, w')
         | l # ls \<Rightarrow> (Inr l, w'\<lparr>stdin := ls\<rparr>))"

text \<open>The object at an address, and \<^verbatim>\<open>Contact(...)\<close>, which allocates a new one.\<close>

definition obj :: "world \<Rightarrow> ref \<Rightarrow> contact" where
  "obj w r = heap w ! r"

definition new_contact :: "contact \<Rightarrow> ref io" where
  "new_contact c w = (Inr (length (heap w)), w\<lparr>heap := heap w @ [c]\<rparr>)"

fun new_contacts :: "contact list \<Rightarrow> ref list io" where
  "new_contacts [] = return []"
| "new_contacts (c # cs) =
     bind (new_contact c) (\<lambda>r. bind (new_contacts cs) (\<lambda>rs. return (r # rs)))"

definition contact_str :: "contact \<Rightarrow> string" where
  "contact_str c = first_name c @ '' '' @ last_name c @ '', Phone: '' @ phone_number c
     @ '', Email: '' @ email c"

section \<open>Loading and saving\<close>

text \<open>\<^verbatim>\<open>for data in contacts_data\<close>: a list yields its elements, a dict its keys, a string
  its characters; the other values are not iterable.\<close>

fun iterate :: "json \<Rightarrow> error + json list" where
  "iterate (JArray xs) = Inr xs"
| "iterate (JObject kvs) = Inr (map (\<lambda>kv. JString (fst kv)) kvs)"
| "iterate (JString s) = Inr (map (\<lambda>c. JString [c]) s)"
| "iterate JNull = Inl TypeError"
| "iterate (JBool b) = Inl TypeError"
| "iterate (JNumber n) = Inl TypeError"

definition field_names :: "string list" where
  "field_names = [''first_name'', ''last_name'', ''phone_number'', ''email'']"

text \<open>
  \<^verbatim>\<open>Contact(**data)\<close>: \<open>data\<close> has to be a dict whose keys are exactly the four
  parameter names; a missing or an unexpected keyword, and a value that is no mapping,
  raise \<^verbatim>\<open>TypeError\<close>.
\<close>

fun contact_of_kwargs :: "json \<Rightarrow> error + contact" where
  "contact_of_kwargs (JObject kvs) =
     (if set (map fst kvs) = set field_names
      then Inr \<lparr>first_name = the (map_of kvs ''first_name''),
                last_name = the (map_of kvs ''last_name''),
                phone_number = the (map_of kvs ''phone_number''),
                email = the (map_of kvs ''email'')\<rparr>
      else Inl TypeError)"
| "contact_of_kwargs (JArray xs) = Inl TypeError"
| "contact_of_kwargs (JString s) = Inl TypeError"
| "contact_of_kwargs JNull = Inl TypeError"
| "contact_of_kwargs (JBool b) = Inl TypeError"
| "contact_of_kwargs (JNumber n) = Inl TypeError"

text \<open>The comprehension \<^verbatim>\<open>[Contact(**data) for data in contacts_data]\<close>: the first
  element that fails ends it.\<close>

fun contacts_of :: "json list \<Rightarrow> error + contact list" where
  "contacts_of [] = Inr []"
| "contacts_of (d # ds) =
     (case contact_of_kwargs d of
        Inl e \<Rightarrow> Inl e
      | Inr c \<Rightarrow> (case contacts_of ds of Inl e \<Rightarrow> Inl e | Inr cs \<Rightarrow> Inr (c # cs)))"

text \<open>
  \<^verbatim>\<open>open(self.filename, "r")\<close> followed by \<^verbatim>\<open>json.load(file)\<close>, which reads the whole
  file, decoding it, and then parses the text.
\<close>

definition json_load :: "json io" where
  "json_load w =
     (case file_contents w of
        Missing \<Rightarrow> (Inl FileNotFoundError, w)
      | Undecodable \<Rightarrow> (Inl UnicodeDecodeError, w)
      | Garbled t \<Rightarrow> (Inl JSONDecodeError, w)
      | Document d \<Rightarrow> (Inr d, w))"

definition set_contacts :: "ref list \<Rightarrow> unit io" where
  "set_contacts rs w = (Inr (), w\<lparr>contacts := rs\<rparr>)"

text \<open>The body of the \<^verbatim>\<open>try\<close> in \<^verbatim>\<open>load_contacts\<close>, and \<^verbatim>\<open>load_contacts\<close> with its two
  handlers; any other exception leaves the method.\<close>

definition load_body :: "unit io" where
  "load_body =
     bind json_load (\<lambda>contacts_data.
     bind (lift (iterate contacts_data)) (\<lambda>items.
     bind (lift (contacts_of items)) (\<lambda>cs.
     bind (new_contacts cs) set_contacts)))"

definition load_contacts :: "unit io" where
  "load_contacts w =
     (case load_body w of
        (Inl FileNotFoundError, w') \<Rightarrow> set_contacts [] w'
      | (Inl JSONDecodeError, w') \<Rightarrow>
          bind (print_in_color ''Error reading the contacts file.'' ''red'')
            (\<lambda>_. set_contacts []) w'
      | (r, w') \<Rightarrow> (r, w'))"

text \<open>\<^verbatim>\<open>ContactManager(filename)\<close> on a given file and console input.\<close>

definition contact_manager :: "file_state \<Rightarrow> string list \<Rightarrow> (error + unit) \<times> world" where
  "contact_manager f inp =
     load_contacts \<lparr>heap = [], contacts = [], file_contents = f, stdin = inp, stdout = []\<rparr>"

text \<open>\<^verbatim>\<open>contact.__dict__\<close> and \<^verbatim>\<open>save_contacts\<close>, which overwrites the file.\<close>

definition contact_dict :: "contact \<Rightarrow> json" where
  "contact_dict c =
     JObject [(''first_name'', first_name c), (''last_name'', last_name c),
              (''phone_number'', phone_number c), (''email'', email c)]"

definition save_contacts :: "unit io" where
  "save_contacts w =
     (Inr (), w\<lparr>file_contents := Document (JArray (map (\<lambda>r. contact_dict (obj w r)) (contacts w)))\<rparr>)"

section \<open>Adding\<close>

definition get :: "(world \<Rightarrow> 'a) \<Rightarrow> 'a io" where
  "get f w = (Inr (f w), w)"

text \<open>
  \<^verbatim>\<open>get_valid_input\<close>: the \<^verbatim>\<open>while True\<close> loop reads a line in every round, so on a
  finite input it ends, with a value or with \<^verbatim>\<open>EOFError\<close>.
\<close>

function get_valid_input :: "string \<Rightarrow> (string \<Rightarrow> bool) \<Rightarrow> string \<Rightarrow> string io" where
  "get_valid_input prompt validation_func error_message w =
     (case input prompt w of
        (Inl e, w') \<Rightarrow> (Inl e, w')
      | (Inr l, w') \<Rightarrow>
          (let v = strip l
           in if validation_func v then (Inr v, w')
              else get_valid_input prompt validation_func error_message
                     (emit (Colored error_message ''red'') w')))"
  by pat_completeness auto
termination
  by (relation "measure (\<lambda>(p, v, e, w). length (stdin w))")
     (auto simp: input_def emit_def Let_def split: list.splits if_splits)

declare get_valid_input.simps [simp del]

definition is_duplicate :: "string \<Rightarrow> string \<Rightarrow> string \<Rightarrow> string \<Rightarrow> world \<Rightarrow> bool" where
  "is_duplicate f l p e w =
     list_ex (\<lambda>r. first_name (obj w r) = f \<and> last_name (obj w r) = l
                \<and> phone_number (obj w r) = p \<and> email (obj w r) = e) (contacts w)"

text \<open>The last four lines of \<^verbatim>\<open>add_contact\<close>.\<close>

definition add_append :: "string \<Rightarrow> string \<Rightarrow> string \<Rightarrow> string \<Rightarrow> unit io" where
  "add_append f l p e =
     bind (new_contact \<lparr>first_name = f, last_name = l, phone_number = p, email = e\<rparr>) (\<lambda>c.
     bind (\<lambda>w. (Inr (), w\<lparr>contacts := contacts w @ [c]\<rparr>)) (\<lambda>_.
     bind save_contacts (\<lambda>_.
     print_in_color ''Contact added successfully.'' ''green'')))"

text \<open>\<^verbatim>\<open>add_contact\<close> from the duplicate check on.\<close>

definition add_checked :: "string \<Rightarrow> string \<Rightarrow> string \<Rightarrow> string \<Rightarrow> unit io" where
  "add_checked f l p e =
     bind (get (is_duplicate f l p e)) (\<lambda>dup.
     if dup then
       bind (print_in_color
               ''This contact already exists. Do you want to add it anyway? (y/n): '' ''red'') (\<lambda>_.
       bind (input []) (\<lambda>overwrite.
       if lower (strip overwrite) \<noteq> ''y''
       then print_in_color ''Contact not added.'' ''red''
       else add_append f l p e))
     else add_append f l p e)"

text \<open>An argument left out is \<^verbatim>\<open>None\<close> and is asked for; one that is given is taken as
  it is: \<^verbatim>\<open>self.get_valid_input(...) if x is None else x\<close>.\<close>

definition arg_or_input ::
  "string option \<Rightarrow> string \<Rightarrow> (string \<Rightarrow> bool) \<Rightarrow> string \<Rightarrow> string io" where
  "arg_or_input arg prompt validation_func error_message =
     (case arg of
        None \<Rightarrow> get_valid_input prompt validation_func error_message
      | Some v \<Rightarrow> return v)"

definition add_contact ::
  "string option \<Rightarrow> string option \<Rightarrow> string option \<Rightarrow> string option \<Rightarrow> unit io" where
  "add_contact first_name_arg last_name_arg phone_number_arg email_arg =
     bind (arg_or_input first_name_arg ''First name: '' is_valid_name
             ''Invalid first name. Only letters and spaces are allowed.'') (\<lambda>f.
     bind (arg_or_input last_name_arg ''Last name: '' is_valid_name
             ''Invalid last name. Only letters and spaces are allowed.'') (\<lambda>l.
     bind (arg_or_input phone_number_arg ''Phone number: '' is_valid_phone
             ''Invalid phone number. Only numbers and optionally a plus sign are allowed.'') (\<lambda>p.
     bind (arg_or_input email_arg ''Email: '' is_valid_email
             ''Invalid email. Please enter a valid email address.'') (\<lambda>e.
     add_checked f l p e))))"

section \<open>Searching and selecting\<close>

definition contact_matches :: "string \<Rightarrow> contact \<Rightarrow> bool" where
  "contact_matches query c \<longleftrightarrow>
     str_in query (lower (first_name c)) \<or> str_in query (lower (last_name c))
     \<or> str_in query (phone_number c) \<or> str_in query (lower (email c))"

definition table_headers :: "string list" where
  "table_headers = [''First Name'', ''Last Name'', ''Phone Number'', ''Email'']"

definition search_contact :: "string \<Rightarrow> bool \<Rightarrow> ref list io" where
  "search_contact query_arg display w =
     (let query = lower query_arg;
          results = filter (\<lambda>r. contact_matches query (obj w r)) (contacts w)
      in bind (if display then
                 (if results \<noteq> [] then
                    (\<lambda>w. (Inr (), emit (Table table_headers
                       (map (\<lambda>r. [first_name (obj w r), last_name (obj w r),
                                   phone_number (obj w r), email (obj w r)]) results)) w))
                  else print_in_color ''No contacts found.'' ''red'')
               else return ())
           (\<lambda>_. return results) w)"

text \<open>\<^verbatim>\<open>str(n)\<close> for a natural number.\<close>

fun str_nat :: "nat \<Rightarrow> string" where
  "str_nat n =
     (if n < 10 then [''0123456789'' ! n]
      else str_nat (n div 10) @ [''0123456789'' ! (n mod 10)])"

declare str_nat.simps [simp del]

text \<open>
  \<^verbatim>\<open>int(s)\<close> on a string: surrounding whitespace is dropped, a sign may lead, and the
  digits may be grouped by single underscores. \<open>None\<close> is \<^verbatim>\<open>ValueError\<close>. The whitespace
  of \<^verbatim>\<open>int\<close> is that of \<^verbatim>\<open>str.isspace\<close> without the four separators 0x1C to 0x1F,
  and a text of more digits than the interpreter's limit, 4300 unless it is configured
  otherwise, is refused.
\<close>

definition int_whitespace :: string where
  "int_whitespace = [CHR 0x09, CHR 0x0A, CHR 0x0B, CHR 0x0C, CHR 0x0D, CHR 0x20,
                     CHR 0x85, CHR 0xA0]"

definition int_strip :: "string \<Rightarrow> string" where
  "int_strip s =
     rev (dropWhile (\<lambda>c. c \<in> set int_whitespace)
            (rev (dropWhile (\<lambda>c. c \<in> set int_whitespace) s)))"

definition int_max_str_digits :: nat where
  "int_max_str_digits = 4300"

fun parse_digits :: "nat \<Rightarrow> bool \<Rightarrow> string \<Rightarrow> nat option" where
  "parse_digits acc prev [] = (if prev then Some acc else None)"
| "parse_digits acc prev (c # cs) =
     (if is_digit c then parse_digits (10 * acc + (of_char c - 48)) True cs
      else if c = CHR ''_'' \<and> prev then parse_digits acc False cs
      else None)"

definition parse_number :: "string \<Rightarrow> nat option" where
  "parse_number ds =
     (if int_max_str_digits < length (filter is_digit ds) then None
      else parse_digits 0 False ds)"

definition py_int :: "string \<Rightarrow> int option" where
  "py_int s =
     (case int_strip s of
        [] \<Rightarrow> None
      | c # cs \<Rightarrow>
          if c = CHR ''-'' then map_option (\<lambda>n. - int n) (parse_number cs)
          else if c = CHR ''+'' then map_option int (parse_number cs)
          else map_option int (parse_number (c # cs)))"

fun print_results :: "nat \<Rightarrow> ref list \<Rightarrow> unit io" where
  "print_results i [] = return ()"
| "print_results i (r # rs) =
     bind (get (\<lambda>w. obj w r)) (\<lambda>c.
     bind (print (str_nat (i + 1) @ '': '' @ contact_str c)) (\<lambda>_.
     print_results (Suc i) rs))"

text \<open>The \<^verbatim>\<open>while True\<close> loop of \<^verbatim>\<open>_select_contact_from_results\<close>; it too reads a line in
  every round.\<close>

function select_loop :: "ref list \<Rightarrow> ref io" where
  "select_loop results w =
     (case input ''Enter the index number of the contact you want to modify or delete: '' w of
        (Inl e, w') \<Rightarrow> (Inl e, w')
      | (Inr l, w') \<Rightarrow>
          (case py_int l of
             None \<Rightarrow>
               select_loop results
                 (emit (Colored ''Invalid input. Please enter a valid index number.'' ''red'') w')
           | Some n \<Rightarrow>
               (let choice = n - 1
                in if 0 \<le> choice \<and> choice < int (length results)
                   then (Inr (results ! nat choice), w')
                   else select_loop results
                     (emit (Colored ''Invalid selection. Please enter an index number corresponding to one of the contacts listed.'' ''red'') w'))))"
  by pat_completeness auto
termination
  by (relation "measure (\<lambda>(rs, w). length (stdin w))")
     (auto simp: input_def emit_def Let_def split: list.splits if_splits)

declare select_loop.simps [simp del]

definition select_contact_from_results :: "ref list \<Rightarrow> ref io" where
  "select_contact_from_results results =
     (if length results > 1
      then bind (print_results 0 results) (\<lambda>_. select_loop results)
      else (case results of [] \<Rightarrow> raise IndexError | r # rs \<Rightarrow> return r))"

section \<open>Modifying and deleting\<close>

text \<open>
  \<^verbatim>\<open>get_new_value\<close> calls itself after an invalid entry; every call reads a line. (The
  interpreter's limit on the depth of recursion is not modelled.)
\<close>

function get_new_value ::
  "string \<Rightarrow> (string \<Rightarrow> bool) \<Rightarrow> string \<Rightarrow> string \<Rightarrow> string io" where
  "get_new_value prompt validation_func error_message current_value w =
     (case input prompt w of
        (Inl e, w') \<Rightarrow> (Inl e, w')
      | (Inr l, w') \<Rightarrow>
          (let new_value = strip l
           in if new_value = [] then (Inr current_value, w')
              else if \<not> validation_func new_value
              then get_new_value prompt validation_func error_message current_value
                     (emit (Colored error_message ''red'') w')
              else (Inr new_value, w')))"
  by pat_completeness auto
termination
  by (relation "measure (\<lambda>(p, v, e, c, w). length (stdin w))")
     (auto simp: input_def emit_def Let_def split: list.splits if_splits)

declare get_new_value.simps [simp del]

text \<open>
  \<^verbatim>\<open>xs.index(x)\<close> and \<^verbatim>\<open>xs.remove(x)\<close> compare with \<^verbatim>\<open>==\<close>, which for Contact objects
  is identity: equality of references. \<^verbatim>\<open>xs[i]\<close> is for an index that is not negative.
\<close>

fun list_index :: "ref list \<Rightarrow> ref \<Rightarrow> error + nat" where
  "list_index [] x = Inl ValueError"
| "list_index (y # ys) x =
     (if y = x then Inr 0
      else (case list_index ys x of Inl e \<Rightarrow> Inl e | Inr i \<Rightarrow> Inr (Suc i)))"

definition list_remove :: "ref list \<Rightarrow> ref \<Rightarrow> error + ref list" where
  "list_remove xs x = (if x \<in> set xs then Inr (remove1 x xs) else Inl ValueError)"

definition list_get :: "ref list \<Rightarrow> nat \<Rightarrow> error + ref" where
  "list_get xs i = (if i < length xs then Inr (xs ! i) else Inl IndexError)"

text \<open>An assignment \<^verbatim>\<open>self.contacts[index].attr = value\<close>.\<close>

definition set_attr :: "nat \<Rightarrow> (contact \<Rightarrow> contact) \<Rightarrow> unit io" where
  "set_attr index upd =
     bind (\<lambda>w. lift (list_get (contacts w) index) w) (\<lambda>r.
     (\<lambda>w. (Inr (), w\<lparr>heap := (heap w)[r := upd (heap w ! r)]\<rparr>)))"

text \<open>The four assignments that end \<^verbatim>\<open>modify_contact\<close>, the save and the message.\<close>

definition modify_assign :: "nat \<Rightarrow> string \<Rightarrow> string \<Rightarrow> string \<Rightarrow> string \<Rightarrow> unit io" where
  "modify_assign index f l p e =
     bind (set_attr index (\<lambda>c. c\<lparr>first_name := f\<rparr>)) (\<lambda>_.
     bind (set_attr index (\<lambda>c. c\<lparr>last_name := l\<rparr>)) (\<lambda>_.
     bind (set_attr index (\<lambda>c. c\<lparr>phone_number := p\<rparr>)) (\<lambda>_.
     bind (set_attr index (\<lambda>c. c\<lparr>email := e\<rparr>)) (\<lambda>_.
     bind save_contacts (\<lambda>_.
     print_in_color ''Contact modified successfully.'' ''green'')))))"

text \<open>\<^verbatim>\<open>modify_contact\<close> from the duplicate check on.\<close>

definition modify_checked :: "nat \<Rightarrow> string \<Rightarrow> string \<Rightarrow> string \<Rightarrow> string \<Rightarrow> unit io" where
  "modify_checked index f l p e =
     bind (get (is_duplicate f l p e)) (\<lambda>dup.
     if dup then
       bind (print_in_color
               ''This contact already exists. Do you want to update it anyway? (y/n): ''
               ''red'') (\<lambda>_.
       bind (input []) (\<lambda>overwrite.
       if lower (strip overwrite) \<noteq> ''y''
       then print_in_color ''Modification cancelled due to duplicate contact.'' ''red''
       else modify_assign index f l p e))
     else modify_assign index f l p e)"

text \<open>\<^verbatim>\<open>modify_contact\<close> from \<^verbatim>\<open>index = self.contacts.index(contact)\<close> on: the
  position and the new values.\<close>

definition modify_selected :: "ref \<Rightarrow> unit io" where
  "modify_selected c =
     bind (\<lambda>w. lift (list_index (contacts w) c) w) (\<lambda>index.
     bind (get (\<lambda>w. obj w c)) (\<lambda>cur.
     bind (get_new_value ''Enter new first name (leave blank to keep current): ''
             is_valid_name ''Invalid first name. Only letters and spaces are allowed.''
             (first_name cur)) (\<lambda>f.
     bind (get_new_value ''Enter new last name (leave blank to keep current): ''
             is_valid_name ''Invalid last name. Only letters and spaces are allowed.''
             (last_name cur)) (\<lambda>l.
     bind (get_new_value ''Enter new phone number (leave blank to keep current): ''
             is_valid_phone
             ''Invalid phone number. Only numbers and optionally a plus sign are allowed.''
             (phone_number cur)) (\<lambda>p.
     bind (get_new_value ''Enter new email (leave blank to keep current): ''
             is_valid_email ''Invalid email. Please enter a valid email address.''
             (email cur)) (\<lambda>e.
     modify_checked index f l p e))))))"

text \<open>
  \<^verbatim>\<open>modify_contact\<close>. A Contact object is always true, so the \<^verbatim>\<open>if not contact\<close> after
  the selection never returns and is left out.
\<close>

definition modify_contact :: "string \<Rightarrow> unit io" where
  "modify_contact query =
     bind (search_contact query False) (\<lambda>results.
     if results \<noteq> [] then
       bind (select_contact_from_results results) (\<lambda>c.
       bind (print (CHR 0x0A # ''Selected contact to modify:'')) (\<lambda>_.
       bind (get (\<lambda>w. contact_str (obj w c))) (\<lambda>text.
       bind (print text) (\<lambda>_.
       bind (print_in_color ''Are you sure you want to modify this contact? (y/n): '' ''red'') (\<lambda>_.
       bind (input []) (\<lambda>confirm.
       if lower (strip confirm) \<noteq> ''y''
       then print_in_color ''Modification cancelled.'' ''red''
       else modify_selected c))))))
     else print_in_color ''No contacts found.'' ''red'')"

definition delete_contact :: "string \<Rightarrow> unit io" where
  "delete_contact query =
     bind (search_contact query False) (\<lambda>results.
     if results \<noteq> [] then
       bind (select_contact_from_results results) (\<lambda>c.
       bind (print (CHR 0x0A # ''Selected contact to delete:'')) (\<lambda>_.
       bind (get (\<lambda>w. contact_str (obj w c))) (\<lambda>text.
       bind (print text) (\<lambda>_.
       bind (print_in_color ''Are you sure you want to delete this contact? (y/n): '' ''red'') (\<lambda>_.
       bind (input []) (\<lambda>confirm.
       if lower (strip confirm) = ''y''
       then
         bind (\<lambda>w. lift (list_remove (contacts w) c) w) (\<lambda>rest.
         bind (set_contacts rest) (\<lambda>_.
         bind save_contacts (\<lambda>_.
         print_in_color ''Contact deleted successfully.'' ''green'')))
       else print_in_color ''Contact deletion cancelled.'' ''red''))))))
     else print_in_color ''No contacts found.'' ''red'')"

section \<open>Well-formed states\<close>

text \<open>
  Every reference of the list is the address of an object, and no object is listed twice:
  the list is only ever extended by objects just made.
\<close>

definition wf_world :: "world \<Rightarrow> bool" where
  "wf_world w \<longleftrightarrow> distinct (contacts w) \<and> list_all (\<lambda>r. r < length (heap w)) (contacts w)"

section \<open>The specification's reading of a match, and example states\<close>

text \<open>
  A match as the specification words it: the lower-cased query in the lower-cased names
  and e-mail address, or the query as it was typed in the phone number.
\<close>

definition spec_contact_matches :: "string \<Rightarrow> contact \<Rightarrow> bool" where
  "spec_contact_matches q c \<longleftrightarrow>
     str_in (lower q) (lower (first_name c)) \<or> str_in (lower q) (lower (last_name c))
     \<or> str_in (lower q) (lower (email c)) \<or> str_in q (phone_number c)"

text \<open>A file whose record has a letter in its phone number, and the state loaded from it.\<close>

definition phone_case_file :: file_state where
  "phone_case_file =
     Document (JArray [JObject [(''first_name'', ''Bob''), (''last_name'', ''Ray''),
                                (''phone_number'', ''X9''), (''email'', ''bob@e.com'')]])"

definition phone_case_world :: world where
  "phone_case_world =
     \<lparr>heap = [\<lparr>first_name = ''Bob'', last_name = ''Ray'', phone_number = ''X9'',
                email = ''bob@e.com''\<rparr>],
      contacts = [0], file_contents = phone_case_file, stdin = [], stdout = []\<rparr>"

text \<open>A file whose record passes no validator, before it is loaded.\<close>

definition unvalidated_file :: file_state where
  "unvalidated_file =
     Document (JArray [JObject [(''first_name'', ''R2''), (''last_name'', ''D2''),
                                (''phone_number'', ''none''), (''email'', ''nowhere'')]])"

definition unvalidated_world :: world where
  "unvalidated_world =
     \<lparr>heap = [], contacts = [], file_contents = unvalidated_file, stdin = [], stdout = []\<rparr>"

text \<open>An empty store with five lines typed for \<^verbatim>\<open>add_contact()\<close>, and the state it ends in.\<close>

definition valid_entry_world :: world where
  "valid_entry_world =
     \<lparr>heap = [], contacts = [], file_contents = Missing,
      stdin = [''R2'', ''Al'', '' Bo'', ''12'', ''a@b.c''], stdout = []\<rparr>"

definition valid_entry_result :: world where
  "valid_entry_result =
     \<lparr>heap = [\<lparr>first_name = ''Al'', last_name = ''Bo'', phone_number = ''12'',
                email = ''a@b.c''\<rparr>],
      contacts = [0],
      file_contents =
        Document (JArray [JObject [(''first_name'', ''Al''), (''last_name'', ''Bo''),
                                   (''phone_number'', ''12''), (''email'', ''a@b.c'')]]),
      stdin = [],
      stdout = [Prompt ''First name: '',
        Colored ''Invalid first name. Only letters and spaces are allowed.'' ''red'',
        Prompt ''First name: '', Prompt ''Last name: '', Prompt ''Phone number: '',
        Prompt ''Email: '', Colored ''Contact added successfully.'' ''green'']\<rparr>"

text \<open>A store that holds two objects with equal attributes.\<close>

definition twin_world :: world where
  "twin_world =
     \<lparr>heap = [\<lparr>first_name = ''Jane'', last_name = ''Roe'', phone_number = ''555'',
                email = ''jane@x.com''\<rparr>,
              \<lparr>first_name = ''Jane'', last_name = ''Roe'', phone_number = ''555'',
                email = ''jane@x.com''\<rparr>],
      contacts = [0, 1], file_contents = Missing, stdin = [], stdout = []\<rparr>"

text \<open>The prompt of the selection, and the numbered list printed before it.\<close>

definition select_prompt :: string where
  "select_prompt = ''Enter the index number of the contact you want to modify or delete: ''"

definition listing :: "world \<Rightarrow> nat \<Rightarrow> ref list \<Rightarrow> console list" where
  "listing w i rs =
     map (\<lambda>k. Line (str_nat (i + k + 1) @ '': '' @ contact_str (obj w (rs ! k))))
       [0..<length rs]"

text \<open>
  The value \<^verbatim>\<open>get_new_value\<close> returns for a line that is blank or valid: the current value
  for a blank line, the stripped line otherwise. And the question of \<^verbatim>\<open>modify_contact\<close>
  after it found a duplicate.
\<close>

definition entered :: "string \<Rightarrow> string \<Rightarrow> string" where
  "entered current_value line = (if strip line = [] then current_value else strip line)"

definition modify_question :: console where
  "modify_question =
     Colored ''This contact already exists. Do you want to update it anyway? (y/n): '' ''red''"

text \<open>A store of two different records.\<close>

definition pair_world :: world where
  "pair_world =
     \<lparr>heap = [\<lparr>first_name = ''Jane'', last_name = ''Roe'', phone_number = ''555'',
                email = ''jane@x.com''\<rparr>,
              \<lparr>first_name = ''Bob'', last_name = ''Ray'', phone_number = ''666'',
                email = ''bob@e.com''\<rparr>],
      contacts = [0, 1], file_contents = Missing, stdin = [], stdout = []\<rparr>"

section \<open>Properties of the name validator\<close>






section \<open>Properties of searching\<close>

lemma startswith_iff: "startswith q s \<longleftrightarrow> prefix q s"
  by (induction q s rule: startswith.induct) auto

lemma str_in_iff: "str_in q s \<longleftrightarrow> sublist q s"
  by (induction s) (auto simp: startswith_iff sublist_Cons_right)

lemma lower_Nil: "lower [] = []"
  by (simp add: lower_def)

lemma str_in_Nil: "str_in [] s"
  by (simp add: str_in_iff)

text \<open>
  What \<^verbatim>\<open>search_contact\<close> computes. The query is lower-cased once, before any
  comparison, and so are the names and the e-mail address of a record, but not its phone
  number. The result is in the order of the store, nothing is changed, and the empty
  query returns every record.
\<close>

lemma search_contact_eq:
  "search_contact q False w =
     (Inr (filter (\<lambda>r. sublist (lower q) (lower (first_name (obj w r)))
                      \<or> sublist (lower q) (lower (last_name (obj w r)))
                      \<or> sublist (lower q) (phone_number (obj w r))
                      \<or> sublist (lower q) (lower (email (obj w r)))) (contacts w)), w)
   \<and> search_contact [] False w = (Inr (contacts w), w)"
  by (simp add: search_contact_def Let_def bind_def return_def contact_matches_def str_in_iff lower_Nil)

text \<open>
  C1 fails on the code. A query that occurs, as it was typed, in a stored phone number is
  to match that record, and \<^verbatim>\<open>search_contact\<close> describes itself as case-insensitive; but
  the query is lower-cased and the phone number is not. In the store loaded from a file
  whose record has the phone number \<^verbatim>\<open>X9\<close>, the query \<^verbatim>\<open>X\<close> finds nothing, although the
  record matches in the specification's reading and although the query \<^verbatim>\<open>BOB\<close> finds the
  same record through its first name \<^verbatim>\<open>Bob\<close>.
\<close>

theorem search_phone_uppercase_missed:
  "contact_manager phone_case_file [] = (Inr (), phone_case_world)
   \<and> search_contact ''X'' False phone_case_world = (Inr [], phone_case_world)
   \<and> filter (\<lambda>r. spec_contact_matches ''X'' (obj phone_case_world r))
        (contacts phone_case_world) = [0]
   \<and> search_contact ''BOB'' False phone_case_world = (Inr [0], phone_case_world)"
  by (simp add: contact_manager_def phone_case_file_def phone_case_world_def
      load_contacts_def load_body_def bind_def json_load_def lift_def field_names_def
      new_contact_def return_def set_contacts_def search_contact_def Let_def
      contact_matches_def spec_contact_matches_def obj_def lower_def lower_char_def
      ascii_uppercase_def ascii_lowercase_def latin1_uppercase_def latin1_lowercase_def)

text \<open>With \<^verbatim>\<open>display\<close> set the table or the message is printed as well; the result and
  the store are the same.\<close>

lemma search_contact_display:
  "fst (search_contact q display w) = fst (search_contact q False w)
   \<and> heap (snd (search_contact q display w)) = heap w
   \<and> contacts (snd (search_contact q display w)) = contacts w
   \<and> file_contents (snd (search_contact q display w)) = file_contents w"
  by (simp add: search_contact_def Let_def bind_def return_def print_in_color_def emit_def)

text \<open>
  A phone number of digits and plus signs, as the phone validator demands, contains the
  lower-cased query exactly when it contains the query as it was typed: the difference
  shows only on phone numbers that were never validated.
\<close>

lemma lower_char_cases:
  "lower_char c = c \<or> c \<in> set (ascii_uppercase @ latin1_uppercase)"
  by (auto simp: lower_char_def split: option.splits dest!: map_of_SomeD set_zip_leftD)

lemma uppercase_no_digit:
  "c \<in> set (ascii_uppercase @ latin1_uppercase) \<Longrightarrow>
   \<not> is_digit c \<and> c \<noteq> CHR ''+'' \<and> \<not> is_digit (lower_char c) \<and> lower_char c \<noteq> CHR ''+''"
  by (auto simp: ascii_uppercase_def ascii_lowercase_def latin1_uppercase_def
      latin1_lowercase_def is_digit_def lower_char_def)

lemma lower_digits:
  "list_all (\<lambda>c. is_digit c \<or> c = CHR ''+'') s \<Longrightarrow> lower s = s"
  using lower_char_cases uppercase_no_digit
  by (induction s) (auto simp: lower_def)

lemma lower_digits_back:
  "list_all (\<lambda>c. is_digit c \<or> c = CHR ''+'') (lower s) \<Longrightarrow> lower s = s"
proof (induction s)
  case Nil
  then show ?case by (simp add: lower_def)
next
  case (Cons c s)
  from Cons.prems have "is_digit (lower_char c) \<or> lower_char c = CHR ''+''"
    by (simp add: lower_def)
  with lower_char_cases [of c] uppercase_no_digit [of c] have "lower_char c = c"
    by blast
  with Cons show ?case
    by (simp add: lower_def)
qed

lemma phone_of_digits:
  assumes "list_all (\<lambda>c. is_digit c \<or> c = CHR ''+'') phone"
  shows "str_in (lower q) phone \<longleftrightarrow> str_in q phone"
proof
  assume "str_in (lower q) phone"
  then have sub: "sublist (lower q) phone"
    by (simp add: str_in_iff)
  then have "set (lower q) \<subseteq> set phone"
    by (rule set_mono_sublist)
  with assms have "list_all (\<lambda>c. is_digit c \<or> c = CHR ''+'') (lower q)"
    by (auto simp: list_all_iff)
  then have "lower q = q"
    by (rule lower_digits_back)
  with sub show "str_in q phone"
    by (simp add: str_in_iff)
next
  assume "str_in q phone"
  then have sub: "sublist q phone"
    by (simp add: str_in_iff)
  then have "set q \<subseteq> set phone"
    by (rule set_mono_sublist)
  with assms have "list_all (\<lambda>c. is_digit c \<or> c = CHR ''+'') q"
    by (auto simp: list_all_iff)
  then have "lower q = q"
    by (rule lower_digits)
  with sub show "str_in (lower q) phone"
    by (simp add: str_in_iff)
qed

section \<open>Properties of loading and saving\<close>

lemma new_contacts_eq:
  "new_contacts cs w =
     (Inr [length (heap w)..<length (heap w) + length cs], w\<lparr>heap := heap w @ cs\<rparr>)"
proof (induction cs arbitrary: w)
  case Nil
  then show ?case by (simp add: return_def)
next
  case (Cons c cs)
  show ?case
    using upt_conv_Cons [of "length (heap w)" "Suc (length (heap w) + length cs)"]
    by (simp add: bind_def new_contact_def return_def Cons)
qed

lemma contact_of_kwargs_dict: "contact_of_kwargs (contact_dict c) = Inr c"
  by (simp add: contact_dict_def field_names_def)

lemma contacts_of_dicts: "contacts_of (map contact_dict cs) = Inr cs"
  by (induction cs) (simp_all add: contact_of_kwargs_dict)

lemma load_contacts_document:
  assumes "file_contents w = Document (JArray (map contact_dict cs))"
  shows "load_contacts w =
     (Inr (), w\<lparr>heap := heap w @ cs,
                contacts := [length (heap w)..<length (heap w) + length cs]\<rparr>)"
  using assms
  by (simp add: load_contacts_def load_body_def bind_def json_load_def lift_def
      contacts_of_dicts new_contacts_eq set_contacts_def)

lemma map_nth_append_upt:
  "map (\<lambda>r. (xs @ ys) ! r) [length xs..<length xs + length ys] = ys"
  by (rule nth_equalityI) (simp_all add: nth_append)

lemma save_contacts_file:
  "file_contents (snd (save_contacts w))
     = Document (JArray (map contact_dict (map (obj w) (contacts w))))"
  by (simp add: save_contacts_def)

lemma load_saved:
  assumes "file_contents w0 = file_contents (snd (save_contacts w))"
  shows "fst (load_contacts w0) = Inr ()"
    and "map (obj (snd (load_contacts w0))) (contacts (snd (load_contacts w0)))
           = map (obj w) (contacts w)"
    and "file_contents (snd (load_contacts w0)) = file_contents w0"
    and "stdin (snd (load_contacts w0)) = stdin w0"
    and "stdout (snd (load_contacts w0)) = stdout w0"
proof -
  let ?cs = "map (obj w) (contacts w)"
  from assms have "file_contents w0 = Document (JArray (map contact_dict ?cs))"
    by (simp add: save_contacts_def)
  then have eq: "load_contacts w0 =
     (Inr (), w0\<lparr>heap := heap w0 @ ?cs,
                contacts := [length (heap w0)..<length (heap w0) + length ?cs]\<rparr>)"
    by (rule load_contacts_document)
  show "fst (load_contacts w0) = Inr ()"
    by (simp add: eq)
  show "map (obj (snd (load_contacts w0))) (contacts (snd (load_contacts w0))) = ?cs"
    using map_nth_append_upt [of "heap w0" ?cs]
    by (simp add: eq obj_def [abs_def])
  show "file_contents (snd (load_contacts w0)) = file_contents w0"
    "stdin (snd (load_contacts w0)) = stdin w0" "stdout (snd (load_contacts w0)) = stdout w0"
    by (simp_all add: eq)
qed

text \<open>
  C5. The file that \<^verbatim>\<open>save_contacts\<close> writes for a store is loaded back, by a manager
  constructed on it and by \<^verbatim>\<open>load_contacts\<close> in any state whatever that holds this file,
  as a store whose records are, field by field and in the same order, the records that
  were saved, whatever the store held before; the load raises nothing and prints
  nothing, and saving the loaded store writes the same file again. No validity of the
  records is needed for it.
\<close>

theorem save_load_round_trip:
  "fst (save_contacts w) = Inr ()
   \<and> fst (contact_manager (file_contents (snd (save_contacts w))) inp) = Inr ()
   \<and> map (obj (snd (contact_manager (file_contents (snd (save_contacts w))) inp)))
         (contacts (snd (contact_manager (file_contents (snd (save_contacts w))) inp)))
     = map (obj w) (contacts w)
   \<and> stdout (snd (contact_manager (file_contents (snd (save_contacts w))) inp)) = []
   \<and> fst (load_contacts (w0\<lparr>file_contents := file_contents (snd (save_contacts w))\<rparr>))
     = Inr ()
   \<and> map (obj (snd (load_contacts
                      (w0\<lparr>file_contents := file_contents (snd (save_contacts w))\<rparr>))))
         (contacts (snd (load_contacts
                      (w0\<lparr>file_contents := file_contents (snd (save_contacts w))\<rparr>))))
     = map (obj w) (contacts w)
   \<and> file_contents (snd (save_contacts (snd (load_contacts
        (w0\<lparr>file_contents := file_contents (snd (save_contacts w))\<rparr>)))))
     = file_contents (snd (save_contacts w))"
proof -
  let ?f = "file_contents (snd (save_contacts w))"
  let ?fresh = "\<lparr>heap = [], contacts = [], file_contents = ?f, stdin = inp, stdout = []\<rparr>"
  let ?w1 = "w0\<lparr>file_contents := ?f\<rparr>"
  have fresh: "file_contents ?fresh = ?f" and w1: "file_contents ?w1 = ?f"
    by simp_all
  let ?w2 = "snd (load_contacts ?w1)"
  have same: "map (obj ?w2) (contacts ?w2) = map (obj w) (contacts w)"
    by (rule load_saved(2) [OF w1])
  have "file_contents (snd (save_contacts ?w2))
      = Document (JArray (map contact_dict (map (obj ?w2) (contacts ?w2))))"
    by (rule save_contacts_file)
  also have "\<dots> = Document (JArray (map contact_dict (map (obj w) (contacts w))))"
    by (simp only: same)
  also have "\<dots> = ?f"
    by (rule save_contacts_file [symmetric])
  finally have again: "file_contents (snd (save_contacts ?w2)) = ?f" .
  show ?thesis
    using load_saved(1,2,5) [OF fresh] load_saved(1,2) [OF w1] again
    by (simp add: contact_manager_def save_contacts_def)
qed

text \<open>
  C4 fails on the code: the two handlers of \<^verbatim>\<open>load_contacts\<close> cover a missing file and a
  text that is not JSON, but a JSON document of another shape than a list of records, here
  the list \<^verbatim>\<open>[1]\<close>, raises \<^verbatim>\<open>TypeError\<close> out of \<^verbatim>\<open>load_contacts\<close> and of the
  constructor.
\<close>

theorem load_wrong_shape_raises:
  "contact_manager (Document (JArray [JNumber 1])) inp =
     (Inl TypeError, \<lparr>heap = [], contacts = [],
        file_contents = Document (JArray [JNumber 1]), stdin = inp, stdout = []\<rparr>)"
  by (simp add: contact_manager_def load_contacts_def load_body_def bind_def json_load_def
      lift_def)

text \<open>The two cases that are handled: the store is empty afterwards, and the file is as
  it was.\<close>

lemma load_contacts_missing:
  "file_contents w = Missing \<Longrightarrow> load_contacts w = (Inr (), w\<lparr>contacts := []\<rparr>)"
  by (simp add: load_contacts_def load_body_def bind_def json_load_def set_contacts_def)

lemma load_contacts_garbled:
  "file_contents w = Garbled t \<Longrightarrow>
   load_contacts w =
     (Inr (), w\<lparr>contacts := [],
                stdout := stdout w @ [Colored ''Error reading the contacts file.'' ''red'']\<rparr>)"
  by (simp add: load_contacts_def load_body_def bind_def json_load_def set_contacts_def
      print_in_color_def emit_def)

text \<open>Bytes that are no text raise \<^verbatim>\<open>UnicodeDecodeError\<close>, for which there is no handler.\<close>

lemma load_contacts_undecodable:
  "file_contents w = Undecodable \<Longrightarrow> load_contacts w = (Inl UnicodeDecodeError, w)"
  by (simp add: load_contacts_def load_body_def bind_def json_load_def)

section \<open>Properties of adding\<close>

lemma emit_sel [simp]:
  "heap (emit x w) = heap w" "contacts (emit x w) = contacts w"
  "file_contents (emit x w) = file_contents w" "stdin (emit x w) = stdin w"
  "stdout (emit x w) = stdout w @ [x]"
  by (simp_all add: emit_def)

lemma input_frame:
  "input p w = (res, w') \<Longrightarrow>
   heap w' = heap w \<and> contacts w' = contacts w \<and> file_contents w' = file_contents w"
  by (auto simp: input_def Let_def split: list.splits if_splits)

lemma get_valid_input_cases:
  "get_valid_input p v e w = (res, w') \<Longrightarrow>
   heap w' = heap w \<and> contacts w' = contacts w \<and> file_contents w' = file_contents w
   \<and> (case res of Inl _ \<Rightarrow> True | Inr x \<Rightarrow> v x)"
proof (induction p v e w rule: get_valid_input.induct)
  case (1 p v e w)
  obtain r1 w1 where i: "input p w = (r1, w1)"
    by (cases "input p w")
  note fr = input_frame [OF i]
  show ?case
  proof (cases r1)
    case (Inl a)
    with "1.prems" i fr show ?thesis
      by (auto simp add: get_valid_input.simps [of p v e w])
  next
    case (Inr l)
    show ?thesis
    proof (cases "v (strip l)")
      case True
      with "1.prems" i fr Inr show ?thesis
        by (auto simp add: get_valid_input.simps [of p v e w])
    next
      case False
      with "1.prems" i Inr
      have "get_valid_input p v e (emit (Colored e ''red'') w1) = (res, w')"
        by (simp add: get_valid_input.simps [of p v e w])
      from "1.IH" [OF i [symmetric] Inr refl False this] fr show ?thesis
        by simp
    qed
  qed
qed

lemma arg_or_input_cases:
  "arg_or_input a p v e w = (res, w') \<Longrightarrow>
   heap w' = heap w \<and> contacts w' = contacts w \<and> file_contents w' = file_contents w
   \<and> (case res of Inl _ \<Rightarrow> True | Inr x \<Rightarrow> (case a of None \<Rightarrow> v x | Some y \<Rightarrow> x = y))"
  using get_valid_input_cases [of p v e w res w']
  by (cases a) (auto simp: arg_or_input_def return_def split: sum.splits)

lemma add_append_eq:
  "add_append f l p e w =
     (Inr (), w\<lparr>heap := heap w @ [\<lparr>first_name = f, last_name = l, phone_number = p, email = e\<rparr>],
                contacts := contacts w @ [length (heap w)],
                file_contents := Document (JArray (map (\<lambda>r. contact_dict
                   ((heap w @ [\<lparr>first_name = f, last_name = l, phone_number = p, email = e\<rparr>]) ! r))
                   (contacts w @ [length (heap w)]))),
                stdout := stdout w @ [Colored ''Contact added successfully.'' ''green'']\<rparr>)"
  by (simp add: add_append_def bind_def new_contact_def save_contacts_def print_in_color_def
      emit_def obj_def)

lemma add_checked_cases:
  assumes "add_checked f l p e w = (res, w')"
  shows "(heap w' = heap w \<and> contacts w' = contacts w)
     \<or> (heap w' = heap w @ [\<lparr>first_name = f, last_name = l, phone_number = p, email = e\<rparr>]
        \<and> contacts w' = contacts w @ [length (heap w)])"
  using assms
  by (auto simp: add_checked_def bind_def get_def print_in_color_def input_def add_append_eq
      split: if_splits list.splits)

lemma bind_cases:
  assumes "bind m k w = (res, w')"
  obtains (fail) e where "m w = (Inl e, w')" "res = Inl e"
  | (ok) x w1 where "m w = (Inr x, w1)" "k x w1 = (res, w')"
  using assms by (auto simp: bind_def split: prod.splits sum.splits)

lemma add_contact_cases:
  assumes "add_contact fa la pa ea w = (res, w')"
  shows "(heap w' = heap w \<and> contacts w' = contacts w)
     \<or> (\<exists>c. heap w' = heap w @ [c] \<and> contacts w' = contacts w @ [length (heap w)]
           \<and> (fa = None \<longrightarrow> is_valid_name (first_name c))
           \<and> (la = None \<longrightarrow> is_valid_name (last_name c))
           \<and> (pa = None \<longrightarrow> is_valid_phone (phone_number c))
           \<and> (ea = None \<longrightarrow> is_valid_email (email c)))"
  using assms unfolding add_contact_def
proof (cases rule: bind_cases)
  case (fail e)
  from arg_or_input_cases [OF fail(1)] show ?thesis by simp
next
  case (ok f w1)
  note a1 = arg_or_input_cases [OF ok(1)]
  from ok(2) show ?thesis
  proof (cases rule: bind_cases)
    case (fail e)
    from arg_or_input_cases [OF fail(1)] a1 show ?thesis by simp
  next
    case (ok l w2)
    note a2 = arg_or_input_cases [OF ok(1)]
    from ok(2) show ?thesis
    proof (cases rule: bind_cases)
      case (fail e)
      from arg_or_input_cases [OF fail(1)] a1 a2 show ?thesis by simp
    next
      case (ok p w3)
      note a3 = arg_or_input_cases [OF ok(1)]
      from ok(2) show ?thesis
      proof (cases rule: bind_cases)
        case (fail e)
        from arg_or_input_cases [OF fail(1)] a1 a2 a3 show ?thesis by simp
      next
        case (ok e w4)
        note a4 = arg_or_input_cases [OF ok(1)]
        from add_checked_cases [OF ok(2)] a1 a2 a3 a4 show ?thesis
          by (auto split: option.splits)
      qed
    qed
  qed
qed

lemma get_valid_input_accept:
  "stdin w = x # xs \<Longrightarrow> v (strip x) \<Longrightarrow>
   get_valid_input p v e w =
     (Inr (strip x), (if p = [] then w else emit (Prompt p) w)\<lparr>stdin := xs\<rparr>)"
  by (simp add: get_valid_input.simps [of p v e w] input_def)

lemma get_valid_input_reject:
  "stdin w = x # xs \<Longrightarrow> \<not> v (strip x) \<Longrightarrow>
   get_valid_input p v e w =
     get_valid_input p v e
       (emit (Colored e ''red'') ((if p = [] then w else emit (Prompt p) w)\<lparr>stdin := xs\<rparr>))"
  by (simp add: get_valid_input.simps [of p v e w] input_def)

lemmas validator_eval = is_valid_name_def is_valid_phone_def is_valid_email_def re_match_def
  name_pattern_def phone_pattern_def email_pattern_def in_cset_def is_space_def
  whitespace_def is_ascii_letter_def is_digit_def is_word_def latin1_alnum_def

lemmas string_eval = strip_def lower_def lower_char_def
  ascii_uppercase_def ascii_lowercase_def latin1_uppercase_def latin1_lowercase_def

text \<open>
  C3, as the code has it. Whatever \<^verbatim>\<open>add_contact\<close> does, it leaves the records of the
  store alone and appends at most one, and every field of that record that was asked for
  (its argument left out) passes its validator. \<^verbatim>\<open>load_contacts\<close> does not validate: the
  store it builds holds the records of the file as they are.
\<close>

theorem admission_checks:
  "(add_contact fa la pa ea w = (res, w') \<longrightarrow>
      (heap w' = heap w \<and> contacts w' = contacts w)
      \<or> (\<exists>c. heap w' = heap w @ [c] \<and> contacts w' = contacts w @ [length (heap w)]
           \<and> (fa = None \<longrightarrow> is_valid_name (first_name c))
           \<and> (la = None \<longrightarrow> is_valid_name (last_name c))
           \<and> (pa = None \<longrightarrow> is_valid_phone (phone_number c))
           \<and> (ea = None \<longrightarrow> is_valid_email (email c))))
   \<and> (file_contents w = Document (JArray (map contact_dict cs)) \<longrightarrow>
        load_contacts w =
          (Inr (), w\<lparr>heap := heap w @ cs,
                     contacts := [length (heap w)..<length (heap w) + length cs]\<rparr>))"
  using add_contact_cases [of fa la pa ea w res w'] load_contacts_document [of w cs]
  by blast

theorem admission_checks_witness:
  "add_contact None None None None valid_entry_world = (Inr (), valid_entry_result)
   \<and> is_valid_name (first_name (last (heap valid_entry_result)))
   \<and> is_valid_name (last_name (last (heap valid_entry_result)))
   \<and> is_valid_phone (phone_number (last (heap valid_entry_result)))
   \<and> is_valid_email (email (last (heap valid_entry_result)))
   \<and> load_contacts unvalidated_world =
       (Inr (), unvalidated_world
          \<lparr>heap := [\<lparr>first_name = ''R2'', last_name = ''D2'', phone_number = ''none'',
                      email = ''nowhere''\<rparr>],
           contacts := [0]\<rparr>)"
proof -
  have run: "add_contact None None None None valid_entry_world = (Inr (), valid_entry_result)"
    by (simp add: add_contact_def valid_entry_world_def valid_entry_result_def bind_def
        arg_or_input_def get_valid_input_accept get_valid_input_reject validator_eval
        strip_def emit_def add_checked_def get_def is_duplicate_def add_append_eq
        contact_dict_def)
  have doc: "file_contents unvalidated_world =
      Document (JArray (map contact_dict
        [\<lparr>first_name = ''R2'', last_name = ''D2'', phone_number = ''none'',
           email = ''nowhere''\<rparr>]))"
    by (simp add: unvalidated_world_def unvalidated_file_def contact_dict_def)
  have grown: "contacts valid_entry_result \<noteq> contacts valid_entry_world"
    by (simp add: valid_entry_world_def valid_entry_result_def)
  from admission_checks [of None None None None valid_entry_world "Inr ()" valid_entry_result]
    admission_checks [where w = unvalidated_world and cs = "[\<lparr>first_name = ''R2'',
      last_name = ''D2'', phone_number = ''none'', email = ''nowhere''\<rparr>]"]
    run doc grown
  show ?thesis
    by (auto simp: unvalidated_world_def valid_entry_world_def)
qed

text \<open>
  C3 as the specification states it fails: loading a file whose record passes no
  validator puts that record into the store.
\<close>

theorem load_unvalidated_counterexample:
  "contact_manager unvalidated_file [] =
     (Inr (), \<lparr>heap = [\<lparr>first_name = ''R2'', last_name = ''D2'', phone_number = ''none'',
                         email = ''nowhere''\<rparr>],
               contacts = [0], file_contents = unvalidated_file, stdin = [], stdout = []\<rparr>)
   \<and> \<not> is_valid_name ''R2'' \<and> \<not> is_valid_name ''D2'' \<and> \<not> is_valid_phone ''none''
   \<and> \<not> is_valid_email ''nowhere''"
  by (simp add: contact_manager_def unvalidated_file_def
      load_contacts_def load_body_def bind_def json_load_def lift_def field_names_def
      new_contact_def return_def set_contacts_def validator_eval)

lemma record_eq_iff:
  "c = \<lparr>first_name = f, last_name = l, phone_number = p, email = e\<rparr> \<longleftrightarrow>
   first_name c = f \<and> last_name c = l \<and> phone_number c = p \<and> email c = e"
  by (cases c) simp

lemma is_duplicate_iff:
  "is_duplicate f l p e w \<longleftrightarrow>
   (\<exists>r\<in>set (contacts w).
      obj w r = \<lparr>first_name = f, last_name = l, phone_number = p, email = e\<rparr>)"
  by (simp add: is_duplicate_def list_ex_iff record_eq_iff)

lemma add_checked_declined:
  assumes "is_duplicate f l p e w" "stdin w = ans # rest" "lower (strip ans) \<noteq> ''y''"
  shows "add_checked f l p e w =
     (Inr (), w\<lparr>stdin := rest,
        stdout := stdout w @
          [Colored ''This contact already exists. Do you want to add it anyway? (y/n): '' ''red'',
           Colored ''Contact not added.'' ''red'']\<rparr>)"
  using assms
  by (simp add: add_checked_def bind_def get_def print_in_color_def input_def emit_def)

lemma add_contact_given:
  "add_contact (Some f) (Some l) (Some p) (Some e) w = add_checked f l p e w"
  by (simp add: add_contact_def arg_or_input_def bind_def return_def)

lemma arg_or_input_entered:
  assumes "stdin w = x # xs" "v (strip x)" "p \<noteq> []"
  shows "arg_or_input None p v e w =
     (Inr (strip x), w\<lparr>stdin := xs, stdout := stdout w @ [Prompt p]\<rparr>)"
  using assms by (simp add: arg_or_input_def get_valid_input_accept emit_def)

lemma add_contact_entered:
  assumes "stdin w = a # b # c # d # rest"
    and "is_valid_name (strip a)" "is_valid_name (strip b)" "is_valid_phone (strip c)"
      "is_valid_email (strip d)"
  shows "add_contact None None None None w =
     add_checked (strip a) (strip b) (strip c) (strip d)
       (w\<lparr>stdin := rest,
          stdout := stdout w @ [Prompt ''First name: '', Prompt ''Last name: '',
            Prompt ''Phone number: '', Prompt ''Email: '']\<rparr>)"
proof -
  let ?w1 = "w\<lparr>stdin := b # c # d # rest, stdout := stdout w @ [Prompt ''First name: '']\<rparr>"
  let ?w2 = "w\<lparr>stdin := c # d # rest,
    stdout := stdout w @ [Prompt ''First name: '', Prompt ''Last name: '']\<rparr>"
  let ?w3 = "w\<lparr>stdin := d # rest,
    stdout := stdout w @ [Prompt ''First name: '', Prompt ''Last name: '',
      Prompt ''Phone number: '']\<rparr>"
  have s1: "arg_or_input None ''First name: '' is_valid_name
      ''Invalid first name. Only letters and spaces are allowed.'' w = (Inr (strip a), ?w1)"
    using assms(1,2) by (simp add: arg_or_input_entered)
  have s2: "arg_or_input None ''Last name: '' is_valid_name
      ''Invalid last name. Only letters and spaces are allowed.'' ?w1 = (Inr (strip b), ?w2)"
    using assms(3) by (simp add: arg_or_input_entered [where xs = "c # d # rest"])
  have s3: "arg_or_input None ''Phone number: '' is_valid_phone
      ''Invalid phone number. Only numbers and optionally a plus sign are allowed.'' ?w2
      = (Inr (strip c), ?w3)"
    using assms(4) by (simp add: arg_or_input_entered [where xs = "d # rest"])
  have s4: "arg_or_input None ''Email: '' is_valid_email
      ''Invalid email. Please enter a valid email address.'' ?w3
      = (Inr (strip d), w\<lparr>stdin := rest,
          stdout := stdout w @ [Prompt ''First name: '', Prompt ''Last name: '',
            Prompt ''Phone number: '', Prompt ''Email: '']\<rparr>)"
    using assms(5) by (simp add: arg_or_input_entered [where xs = rest])
  show ?thesis
    unfolding add_contact_def by (simp add: bind_def s1 s2 s3 s4)
qed

lemma add_given_declined:
  assumes mem: "r \<in> set (contacts w)"
    and eq: "obj w r = \<lparr>first_name = f, last_name = l, phone_number = p, email = e\<rparr>"
    and inp: "stdin w = ans # rest" and no: "lower (strip ans) \<noteq> ''y''"
  shows "add_contact (Some f) (Some l) (Some p) (Some e) w =
      (Inr (), w\<lparr>stdin := rest,
         stdout := stdout w @
           [Colored ''This contact already exists. Do you want to add it anyway? (y/n): '' ''red'',
            Colored ''Contact not added.'' ''red'']\<rparr>)"
proof -
  from mem eq have dup: "is_duplicate f l p e w"
    unfolding is_duplicate_iff by (rule bexI [rotated])
  show ?thesis
    unfolding add_contact_given by (rule add_checked_declined [OF dup inp no])
qed

lemma add_entered_declined:
  assumes mem: "r \<in> set (contacts w)"
    and eq: "obj w r = \<lparr>first_name = strip a, last_name = strip b, phone_number = strip c,
                   email = strip d\<rparr>"
    and v: "is_valid_name (strip a)" "is_valid_name (strip b)" "is_valid_phone (strip c)"
      "is_valid_email (strip d)"
    and inp: "stdin w = a # b # c # d # ans # rest" and no: "lower (strip ans) \<noteq> ''y''"
  shows "add_contact None None None None w =
      (Inr (), w\<lparr>stdin := rest,
         stdout := stdout w @
           [Prompt ''First name: '', Prompt ''Last name: '', Prompt ''Phone number: '',
            Prompt ''Email: '',
            Colored ''This contact already exists. Do you want to add it anyway? (y/n): '' ''red'',
            Colored ''Contact not added.'' ''red'']\<rparr>)"
proof -
  let ?w4 = "w\<lparr>stdin := ans # rest,
     stdout := stdout w @ [Prompt ''First name: '', Prompt ''Last name: '',
       Prompt ''Phone number: '', Prompt ''Email: '']\<rparr>"
  from mem eq have "is_duplicate (strip a) (strip b) (strip c) (strip d) w"
    unfolding is_duplicate_iff by (rule bexI [rotated])
  then have dup: "is_duplicate (strip a) (strip b) (strip c) (strip d) ?w4"
    by (simp add: is_duplicate_def obj_def)
  have inp4: "stdin ?w4 = ans # rest"
    by simp
  have "add_contact None None None None w =
      add_checked (strip a) (strip b) (strip c) (strip d) ?w4"
    by (rule add_contact_entered [OF inp v])
  also have "\<dots> = (Inr (), ?w4\<lparr>stdin := rest,
        stdout := stdout ?w4 @
          [Colored ''This contact already exists. Do you want to add it anyway? (y/n): '' ''red'',
           Colored ''Contact not added.'' ''red'']\<rparr>)"
    by (rule add_checked_declined [OF dup inp4 no])
  finally show ?thesis
    by simp
qed

text \<open>
  C8. When the store holds a record with the four candidate values and the answer to the
  question is not \<^verbatim>\<open>y\<close>, \<^verbatim>\<open>add_contact\<close> returns with the list, the objects and the
  file as they were; only the answer is consumed and the two messages are printed. This
  holds when the values are given as arguments and when they are typed in.
\<close>

theorem add_duplicate_declined:
  "(r \<in> set (contacts w)
    \<and> obj w r = \<lparr>first_name = f, last_name = l, phone_number = p, email = e\<rparr>
    \<and> stdin w = ans # rest \<and> lower (strip ans) \<noteq> ''y'' \<longrightarrow>
    add_contact (Some f) (Some l) (Some p) (Some e) w =
      (Inr (), w\<lparr>stdin := rest,
         stdout := stdout w @
           [Colored ''This contact already exists. Do you want to add it anyway? (y/n): '' ''red'',
            Colored ''Contact not added.'' ''red'']\<rparr>))
   \<and> (r \<in> set (contacts w)
    \<and> obj w r = \<lparr>first_name = strip a, last_name = strip b, phone_number = strip c,
                   email = strip d\<rparr>
    \<and> is_valid_name (strip a) \<and> is_valid_name (strip b) \<and> is_valid_phone (strip c)
    \<and> is_valid_email (strip d)
    \<and> stdin w = a # b # c # d # ans # rest \<and> lower (strip ans) \<noteq> ''y'' \<longrightarrow>
    add_contact None None None None w =
      (Inr (), w\<lparr>stdin := rest,
         stdout := stdout w @
           [Prompt ''First name: '', Prompt ''Last name: '', Prompt ''Phone number: '',
            Prompt ''Email: '',
            Colored ''This contact already exists. Do you want to add it anyway? (y/n): '' ''red'',
            Colored ''Contact not added.'' ''red'']\<rparr>))"
  by (intro conjI impI; elim conjE;
      (rule add_given_declined | rule add_entered_declined); assumption)

theorem add_duplicate_declined_witness:
  "add_contact (Some ''Jane'') (Some ''Roe'') (Some ''555'') (Some ''jane@x.com'')
     (twin_world\<lparr>stdin := [''n'']\<rparr>) =
     (Inr (), twin_world\<lparr>stdin := [],
        stdout :=
          [Colored ''This contact already exists. Do you want to add it anyway? (y/n): '' ''red'',
           Colored ''Contact not added.'' ''red'']\<rparr>)
   \<and> add_contact None None None None
     (twin_world\<lparr>stdin := [''Jane'', '' Roe'', ''555'', ''jane@x.com'', ''N'']\<rparr>) =
     (Inr (), twin_world\<lparr>stdin := [],
        stdout :=
          [Prompt ''First name: '', Prompt ''Last name: '', Prompt ''Phone number: '',
           Prompt ''Email: '',
           Colored ''This contact already exists. Do you want to add it anyway? (y/n): '' ''red'',
           Colored ''Contact not added.'' ''red'']\<rparr>)"
proof -
  have v: "is_valid_name ''Jane''" "is_valid_name ''Roe''" "is_valid_phone ''555''"
    "is_valid_email ''jane@x.com''"
    by (simp_all add: validator_eval)
  have s: "strip ''Jane'' = ''Jane''" "strip '' Roe'' = ''Roe''" "strip ''555'' = ''555''"
    "strip ''jane@x.com'' = ''jane@x.com''"
    by (simp_all add: strip_def is_space_def whitespace_def)
  have n: "lower (strip ''n'') \<noteq> ''y''" "lower (strip ''N'') \<noteq> ''y''"
    by (simp_all add: string_eval is_space_def whitespace_def)
  from add_duplicate_declined [of 1 "twin_world\<lparr>stdin := [''n'']\<rparr>" "''Jane''" "''Roe''"
      "''555''" "''jane@x.com''" "''n''" "[]"] n
  have first: "add_contact (Some ''Jane'') (Some ''Roe'') (Some ''555'') (Some ''jane@x.com'')
     (twin_world\<lparr>stdin := [''n'']\<rparr>) =
     (Inr (), twin_world\<lparr>stdin := [],
        stdout :=
          [Colored ''This contact already exists. Do you want to add it anyway? (y/n): '' ''red'',
           Colored ''Contact not added.'' ''red'']\<rparr>)"
    by (simp add: twin_world_def obj_def)
  from add_duplicate_declined [where r = 1
      and w = "twin_world\<lparr>stdin := [''Jane'', '' Roe'', ''555'', ''jane@x.com'', ''N'']\<rparr>"
      and a = "''Jane''" and b = "'' Roe''" and c = "''555''" and d = "''jane@x.com''"
      and ans = "''N''" and rest = "[]"] n v s
  have second: "add_contact None None None None
     (twin_world\<lparr>stdin := [''Jane'', '' Roe'', ''555'', ''jane@x.com'', ''N'']\<rparr>) =
     (Inr (), twin_world\<lparr>stdin := [],
        stdout :=
          [Prompt ''First name: '', Prompt ''Last name: '', Prompt ''Phone number: '',
           Prompt ''Email: '',
           Colored ''This contact already exists. Do you want to add it anyway? (y/n): '' ''red'',
           Colored ''Contact not added.'' ''red'']\<rparr>)"
    by (simp add: twin_world_def obj_def)
  from first second show ?thesis
    by simp
qed

text \<open>Values given as arguments are stored as they are, valid or not.\<close>

lemma add_contact_given_unvalidated:
  "add_contact (Some ''R2'') (Some ''D2'') (Some ''none'') (Some ''nowhere'')
     \<lparr>heap = [], contacts = [], file_contents = Missing, stdin = [], stdout = []\<rparr> =
     (Inr (), \<lparr>heap = [\<lparr>first_name = ''R2'', last_name = ''D2'', phone_number = ''none'',
                         email = ''nowhere''\<rparr>],
               contacts = [0],
               file_contents = Document (JArray [JObject [(''first_name'', ''R2''),
                 (''last_name'', ''D2''), (''phone_number'', ''none''),
                 (''email'', ''nowhere'')]]),
               stdin = [],
               stdout = [Colored ''Contact added successfully.'' ''green'']\<rparr>)"
  by (simp add: add_contact_given add_checked_def bind_def get_def is_duplicate_def
      add_append_eq contact_dict_def)

text \<open>Loading and adding keep the state well-formed, and the constructor makes it so.\<close>

lemma wf_world_add_contact:
  assumes "wf_world w" "add_contact fa la pa ea w = (res, w')"
  shows "wf_world w'"
  using add_contact_cases [OF assms(2)] assms(1)
  by (auto simp: wf_world_def list_all_iff less_Suc_eq)

lemma wf_world_load_contacts:
  assumes "wf_world w" "load_contacts w = (Inr (), w')"
  shows "wf_world w'"
  using assms
  by (auto simp: load_contacts_def load_body_def bind_def json_load_def lift_def
      set_contacts_def print_in_color_def new_contacts_eq wf_world_def list_all_iff
      split: file_state.splits sum.splits error.splits)

lemma wf_world_contact_manager:
  "contact_manager f inp = (Inr (), w) \<Longrightarrow> wf_world w"
proof -
  assume run: "contact_manager f inp = (Inr (), w)"
  have "wf_world \<lparr>heap = [], contacts = [], file_contents = f, stdin = inp, stdout = []\<rparr>"
    by (simp add: wf_world_def)
  then show ?thesis
    using run unfolding contact_manager_def by (rule wf_world_load_contacts)
qed

section \<open>Properties of selecting\<close>

lemma select_loop_accept:
  assumes "stdin w = x # xs" "py_int x = Some i" "1 \<le> i" "i \<le> int (length rs)"
  shows "select_loop rs w =
     (Inr (rs ! nat (i - 1)),
      w\<lparr>stdin := xs, stdout := stdout w @ [Prompt select_prompt]\<rparr>)"
  using assms
  by (simp add: select_loop.simps [of rs w] input_def emit_def Let_def select_prompt_def)



lemma listing_Cons:
  "listing w i (r # rs) =
     Line (str_nat (i + 1) @ '': '' @ contact_str (obj w r)) # listing w (Suc i) rs"
proof -
  have "[0..<length (r # rs)] = 0 # map Suc [0..<length rs]"
    by (simp add: upt_conv_Cons map_Suc_upt del: upt_Suc)
  then show ?thesis
    unfolding listing_def by (simp add: comp_def del: upt_Suc)
qed

lemma print_results_eq:
  "print_results i rs w = (Inr (), w\<lparr>stdout := stdout w @ listing w i rs\<rparr>)"
proof (induction rs arbitrary: i w)
  case Nil
  then show ?case by (simp add: return_def listing_def)
next
  case (Cons r rs)
  have same: "listing (w\<lparr>stdout := out\<rparr>) j rs = listing w j rs" for out j
    by (simp add: listing_def obj_def)
  show ?case
    by (simp add: bind_def get_def print_def emit_def Cons listing_Cons same)
qed

lemma select_single: "select_contact_from_results [r] w = (Inr r, w)"
  by (simp add: select_contact_from_results_def return_def)

text \<open>The helper itself indexes an empty result list; its two callers test the list
  first, so it is only ever called on a list that is not empty.\<close>

lemma select_empty: "select_contact_from_results [] w = (Inl IndexError, w)"
  by (simp add: select_contact_from_results_def raise_def)

lemma select_many:
  "1 < length rs \<Longrightarrow>
   select_contact_from_results rs w =
     select_loop rs (w\<lparr>stdout := stdout w @ listing w 0 rs\<rparr>)"
  by (simp add: select_contact_from_results_def bind_def print_results_eq)

lemma search_result:
  "search_contact q False w =
     (Inr (filter (\<lambda>r. contact_matches (lower q) (obj w r)) (contacts w)), w)"
  by (simp add: search_contact_def Let_def bind_def return_def)



lemma select_valid_index:
  assumes "1 < length rs" "stdin w = x # xs" "py_int x = Some i" "1 \<le> i"
    "i \<le> int (length rs)"
  shows "select_contact_from_results rs w =
     (Inr (rs ! nat (i - 1)),
      w\<lparr>stdin := xs, stdout := stdout w @ listing w 0 rs @ [Prompt select_prompt]\<rparr>)"
proof -
  let ?w1 = "w\<lparr>stdout := stdout w @ listing w 0 rs\<rparr>"
  have "stdin ?w1 = x # xs"
    using assms(2) by simp
  from select_loop_accept [OF this assms(3,4,5)] show ?thesis
    by (simp add: select_many [OF assms(1)])
qed



lemmas int_eval = py_int_def int_strip_def int_whitespace_def parse_number_def
  int_max_str_digits_def is_digit_def


section \<open>Properties of modifying and deleting\<close>

lemma get_new_value_step:
  assumes "stdin w = x # xs" "strip x = [] \<or> v (strip x)" "p \<noteq> []"
  shows "get_new_value p v e cur w =
     (Inr (entered cur x), w\<lparr>stdin := xs, stdout := stdout w @ [Prompt p]\<rparr>)"
  using assms
  by (auto simp add: get_new_value.simps [of p v e cur w] input_def emit_def Let_def
      entered_def)

lemma select_loop_frame:
  "select_loop rs w = (Inr c, w1) \<Longrightarrow>
   c \<in> set rs \<and> heap w1 = heap w \<and> contacts w1 = contacts w
   \<and> file_contents w1 = file_contents w"
proof (induction rs w rule: select_loop.induct)
  case (1 rs w)
  obtain r0 w0 where i: "input select_prompt w = (r0, w0)"
    by (cases "input select_prompt w")
  note fr = input_frame [OF i]
  from "1.prems" i obtain l where r0: "r0 = Inr l"
    by (cases r0) (auto simp add: select_loop.simps [of rs w] select_prompt_def)
  show ?case
  proof (cases "py_int l")
    case None
    with "1.prems" i r0
    have "select_loop rs (emit (Colored ''Invalid input. Please enter a valid index number.'' ''red'') w0)
        = (Inr c, w1)"
      by (simp add: select_loop.simps [of rs w] select_prompt_def)
    from "1.IH"(1) [OF i [unfolded select_prompt_def, symmetric] r0 None this] fr
    show ?thesis by simp
  next
    case (Some n)
    show ?thesis
    proof (cases "0 \<le> n - 1 \<and> n - 1 < int (length rs)")
      case True
      with "1.prems" i r0 Some fr show ?thesis
        by (auto simp add: select_loop.simps [of rs w] select_prompt_def Let_def)
    next
      case False
      with "1.prems" i r0 Some
      have "select_loop rs (emit (Colored ''Invalid selection. Please enter an index number corresponding to one of the contacts listed.'' ''red'') w0)
          = (Inr c, w1)"
        by (auto simp add: select_loop.simps [of rs w] select_prompt_def Let_def)
      from "1.IH"(2) [OF i [unfolded select_prompt_def, symmetric] r0 Some refl False this] fr
      show ?thesis by simp
    qed
  qed
qed

lemma select_frame:
  assumes "select_contact_from_results rs w = (Inr c, w1)"
  shows "c \<in> set rs \<and> heap w1 = heap w \<and> contacts w1 = contacts w
   \<and> file_contents w1 = file_contents w"
proof (cases "1 < length rs")
  case True
  with assms have "select_loop rs (w\<lparr>stdout := stdout w @ listing w 0 rs\<rparr>) = (Inr c, w1)"
    by (simp add: select_many)
  from select_loop_frame [OF this] show ?thesis by simp
next
  case False
  with assms show ?thesis
    by (cases rs) (auto simp: select_contact_from_results_def raise_def return_def)
qed

lemma list_index_Inr:
  "list_index xs c = Inr i \<Longrightarrow> i < length xs \<and> xs ! i = c"
  by (induction xs arbitrary: i) (auto split: if_splits sum.splits)

lemma list_index_mem:
  "c \<in> set xs \<Longrightarrow> \<exists>i. list_index xs c = Inr i"
  by (induction xs) (auto split: sum.splits)

lemma world_swap:
  "w\<lparr>stdout := a, stdin := b\<rparr> = w\<lparr>stdin := b, stdout := a\<rparr>"
  by simp

lemma obj_frame [simp]:
  "obj (w\<lparr>stdout := a\<rparr>) = obj w" "obj (w\<lparr>stdin := b\<rparr>) = obj w"
  "obj (w\<lparr>file_contents := f\<rparr>) = obj w" "obj (w\<lparr>contacts := cs\<rparr>) = obj w"
  by (simp_all add: obj_def [abs_def])

lemma set_attr_eq:
  assumes "list_index (contacts w) c = Inr i"
  shows "set_attr i upd w = (Inr (), w\<lparr>heap := (heap w)[c := upd (heap w ! c)]\<rparr>)"
  using list_index_Inr [OF assms]
  by (simp add: set_attr_def bind_def lift_def list_get_def)

lemma modify_assign_eq:
  assumes idx: "list_index (contacts w) c = Inr i" and c: "c < length (heap w)"
  shows "modify_assign i f l p e w =
     (Inr (), w\<lparr>heap := (heap w)[c := \<lparr>first_name = f, last_name = l, phone_number = p,
                                       email = e\<rparr>],
        file_contents := Document (JArray (map (\<lambda>r. contact_dict
          ((heap w)[c := \<lparr>first_name = f, last_name = l, phone_number = p, email = e\<rparr>] ! r))
          (contacts w))),
        stdout := stdout w @ [Colored ''Contact modified successfully.'' ''green'']\<rparr>)"
proof -
  have idx': "list_index (contacts (w\<lparr>heap := h\<rparr>)) c = Inr i" for h
    using idx by simp
  have full: "(heap w ! c)\<lparr>first_name := f, last_name := l, phone_number := p, email := e\<rparr>
      = \<lparr>first_name = f, last_name = l, phone_number = p, email = e\<rparr>"
    by (cases "heap w ! c") simp
  show ?thesis
    unfolding modify_assign_def
    using c
    by (simp add: bind_def set_attr_eq [OF idx] set_attr_eq [OF idx'] save_contacts_def
        print_in_color_def emit_def obj_def full)
qed

lemma modify_checked_clear:
  assumes "\<not> is_duplicate f l p e w"
  shows "modify_checked i f l p e w = modify_assign i f l p e w"
  using assms by (simp add: modify_checked_def bind_def get_def)

lemma modify_checked_declined:
  assumes "is_duplicate f l p e w" "stdin w = ans # rest" "lower (strip ans) \<noteq> ''y''"
  shows "modify_checked i f l p e w =
     (Inr (), w\<lparr>stdin := rest,
        stdout := stdout w @ [modify_question,
          Colored ''Modification cancelled due to duplicate contact.'' ''red'']\<rparr>)"
  using assms
  by (simp add: modify_checked_def bind_def get_def print_in_color_def input_def emit_def
      modify_question_def)

lemma modify_checked_accepted:
  assumes "is_duplicate f l p e w" "stdin w = ans # rest" "lower (strip ans) = ''y''"
  shows "modify_checked i f l p e w =
     modify_assign i f l p e (w\<lparr>stdin := rest, stdout := stdout w @ [modify_question]\<rparr>)"
  using assms
  by (simp add: modify_checked_def bind_def get_def print_in_color_def input_def emit_def
      modify_question_def world_swap)

lemma modify_selected_eq:
  assumes idx: "list_index (contacts w) c = Inr i"
    and inp: "stdin w = a # b # p # d # rest"
    and ok: "strip a = [] \<or> is_valid_name (strip a)" "strip b = [] \<or> is_valid_name (strip b)"
      "strip p = [] \<or> is_valid_phone (strip p)" "strip d = [] \<or> is_valid_email (strip d)"
  shows "modify_selected c w =
     modify_checked i (entered (first_name (obj w c)) a) (entered (last_name (obj w c)) b)
       (entered (phone_number (obj w c)) p) (entered (email (obj w c)) d)
       (w\<lparr>stdin := rest,
          stdout := stdout w @
            [Prompt ''Enter new first name (leave blank to keep current): '',
             Prompt ''Enter new last name (leave blank to keep current): '',
             Prompt ''Enter new phone number (leave blank to keep current): '',
             Prompt ''Enter new email (leave blank to keep current): '']\<rparr>)"
proof -
  let ?P1 = "Prompt ''Enter new first name (leave blank to keep current): ''"
  let ?P2 = "Prompt ''Enter new last name (leave blank to keep current): ''"
  let ?P3 = "Prompt ''Enter new phone number (leave blank to keep current): ''"
  let ?w1 = "w\<lparr>stdin := b # p # d # rest, stdout := stdout w @ [?P1]\<rparr>"
  let ?w2 = "w\<lparr>stdin := p # d # rest, stdout := stdout w @ [?P1, ?P2]\<rparr>"
  let ?w3 = "w\<lparr>stdin := d # rest, stdout := stdout w @ [?P1, ?P2, ?P3]\<rparr>"
  have s1: "get_new_value ''Enter new first name (leave blank to keep current): ''
      is_valid_name ''Invalid first name. Only letters and spaces are allowed.'' cur w
      = (Inr (entered cur a), ?w1)" for cur
    using inp ok(1) by (simp add: get_new_value_step)
  have s2: "get_new_value ''Enter new last name (leave blank to keep current): ''
      is_valid_name ''Invalid last name. Only letters and spaces are allowed.'' cur ?w1
      = (Inr (entered cur b), ?w2)" for cur
    using ok(2) by (simp add: get_new_value_step [where xs = "p # d # rest"])
  have s3: "get_new_value ''Enter new phone number (leave blank to keep current): ''
      is_valid_phone
      ''Invalid phone number. Only numbers and optionally a plus sign are allowed.'' cur ?w2
      = (Inr (entered cur p), ?w3)" for cur
    using ok(3) by (simp add: get_new_value_step [where xs = "d # rest"])
  have s4: "get_new_value ''Enter new email (leave blank to keep current): ''
      is_valid_email ''Invalid email. Please enter a valid email address.'' cur ?w3
      = (Inr (entered cur d), w\<lparr>stdin := rest,
          stdout := stdout w @ [?P1, ?P2, ?P3,
            Prompt ''Enter new email (leave blank to keep current): '']\<rparr>)" for cur
    using ok(4) by (simp add: get_new_value_step [where xs = rest])
  show ?thesis
    unfolding modify_selected_def
    by (simp add: bind_def lift_def get_def idx s1 s2 s3 s4)
qed

lemma modify_contact_eq:
  assumes sel: "select_contact_from_results
        (filter (\<lambda>r. contact_matches (lower q) (obj w r)) (contacts w)) w = (Inr c, w1)"
    and inp: "stdin w1 = cfm # rest" and yes: "lower (strip cfm) = ''y''"
  shows "modify_contact q w =
     modify_selected c
       (w1\<lparr>stdin := rest,
           stdout := stdout w1 @
             [Line (CHR 0x0A # ''Selected contact to modify:''), Line (contact_str (obj w1 c)),
              Colored ''Are you sure you want to modify this contact? (y/n): '' ''red'']\<rparr>)"
proof -
  from sel have ne: "filter (\<lambda>r. contact_matches (lower q) (obj w r)) (contacts w) \<noteq> []"
    by (auto simp: select_empty)
  show ?thesis
    unfolding modify_contact_def
    using ne inp yes
    by (simp add: bind_def search_result sel print_def get_def print_in_color_def input_def
        emit_def world_swap)
qed

lemma delete_contact_eq:
  assumes sel: "select_contact_from_results
        (filter (\<lambda>r. contact_matches (lower q) (obj w r)) (contacts w)) w = (Inr c, w1)"
    and inp: "stdin w1 = cfm # rest" and yes: "lower (strip cfm) = ''y''"
  shows "delete_contact q w =
     (Inr (), w1\<lparr>contacts := remove1 c (contacts w),
        file_contents := Document (JArray (map (\<lambda>r. contact_dict (obj w r))
          (remove1 c (contacts w)))),
        stdin := rest,
        stdout := stdout w1 @
          [Line (CHR 0x0A # ''Selected contact to delete:''), Line (contact_str (obj w1 c)),
           Colored ''Are you sure you want to delete this contact? (y/n): '' ''red'',
           Colored ''Contact deleted successfully.'' ''green'']\<rparr>)"
proof -
  from sel have ne: "filter (\<lambda>r. contact_matches (lower q) (obj w r)) (contacts w) \<noteq> []"
    by (auto simp: select_empty)
  from select_frame [OF sel] have fr: "c \<in> set (contacts w)" "contacts w1 = contacts w"
    and "heap w1 = heap w"
    by auto
  then have same: "obj w1 = obj w"
    by (simp add: obj_def [abs_def])
  show ?thesis
    unfolding delete_contact_def
    using ne inp yes fr
    by (simp add: bind_def search_result sel print_def get_def print_in_color_def input_def
        emit_def lift_def list_remove_def set_contacts_def save_contacts_def same world_swap)
qed

lemma is_duplicate_cong:
  assumes "heap w' = heap w" "contacts w' = contacts w"
  shows "is_duplicate f l p e w' = is_duplicate f l p e w"
  using assms by (simp add: is_duplicate_def obj_def)

lemma modify_contact_run:
  assumes search: "search_contact q False w = (Inr rs, w)"
    and sel: "select_contact_from_results rs w = (Inr c, w1)"
    and inp: "stdin w1 = cfm # a # b # p # d # rest"
    and yes: "lower (strip cfm) = ''y''"
    and ok: "strip a = [] \<or> is_valid_name (strip a)" "strip b = [] \<or> is_valid_name (strip b)"
      "strip p = [] \<or> is_valid_phone (strip p)" "strip d = [] \<or> is_valid_email (strip d)"
  obtains i w3 where
    "modify_contact q w =
       modify_checked i (entered (first_name (obj w c)) a) (entered (last_name (obj w c)) b)
         (entered (phone_number (obj w c)) p) (entered (email (obj w c)) d) w3"
    "list_index (contacts w3) c = Inr i" "c \<in> set (contacts w)"
    "heap w3 = heap w" "contacts w3 = contacts w" "file_contents w3 = file_contents w"
    "stdin w3 = rest"
proof -
  from search have rs: "rs = filter (\<lambda>r. contact_matches (lower q) (obj w r)) (contacts w)"
    by (simp add: search_result)
  from select_frame [OF sel] rs have fr: "c \<in> set (contacts w)" "heap w1 = heap w"
    "contacts w1 = contacts w" "file_contents w1 = file_contents w"
    by auto
  let ?w2 = "w1\<lparr>stdin := a # b # p # d # rest,
           stdout := stdout w1 @
             [Line (CHR 0x0A # ''Selected contact to modify:''), Line (contact_str (obj w1 c)),
              Colored ''Are you sure you want to modify this contact? (y/n): '' ''red'']\<rparr>"
  have run1: "modify_contact q w = modify_selected c ?w2"
    by (rule modify_contact_eq [OF sel [unfolded rs] inp yes])
  from list_index_mem [OF fr(1)] obtain i where i: "list_index (contacts w) c = Inr i"
    by blast
  then have idx: "list_index (contacts ?w2) c = Inr i"
    by (simp add: fr)
  have inp2: "stdin ?w2 = a # b # p # d # rest"
    by simp
  have same: "obj ?w2 = obj w"
    by (simp add: obj_def [abs_def] fr)
  let ?w3 = "?w2\<lparr>stdin := rest,
          stdout := stdout ?w2 @
            [Prompt ''Enter new first name (leave blank to keep current): '',
             Prompt ''Enter new last name (leave blank to keep current): '',
             Prompt ''Enter new phone number (leave blank to keep current): '',
             Prompt ''Enter new email (leave blank to keep current): '']\<rparr>"
  have run2: "modify_selected c ?w2 =
     modify_checked i (entered (first_name (obj w c)) a) (entered (last_name (obj w c)) b)
       (entered (phone_number (obj w c)) p) (entered (email (obj w c)) d) ?w3"
    using modify_selected_eq [OF idx inp2 ok] unfolding same .
  show thesis
  proof (rule that [of i ?w3])
    show "modify_contact q w =
       modify_checked i (entered (first_name (obj w c)) a) (entered (last_name (obj w c)) b)
         (entered (phone_number (obj w c)) p) (entered (email (obj w c)) d) ?w3"
      using run1 run2 by (rule trans)
  qed (simp_all add: fr i)
qed

lemma modify_checked_done:
  assumes idx: "list_index (contacts w) c = Inr i" and c: "c < length (heap w)"
    and ovr: "\<not> is_duplicate f l p e w
      \<or> (\<exists>ans tl. stdin w = ans # tl \<and> lower (strip ans) = ''y'')"
  shows "fst (modify_checked i f l p e w) = Inr ()
    \<and> heap (snd (modify_checked i f l p e w))
        = (heap w)[c := \<lparr>first_name = f, last_name = l, phone_number = p, email = e\<rparr>]
    \<and> contacts (snd (modify_checked i f l p e w)) = contacts w"
proof (cases "is_duplicate f l p e w")
  case False
  then show ?thesis
    by (simp add: modify_checked_clear modify_assign_eq [OF idx c])
next
  case True
  with ovr obtain ans tl where a: "stdin w = ans # tl" "lower (strip ans) = ''y''"
    by blast
  let ?w = "w\<lparr>stdin := tl, stdout := stdout w @ [modify_question]\<rparr>"
  have idx': "list_index (contacts ?w) c = Inr i" and c': "c < length (heap ?w)"
    using idx c by simp_all
  show ?thesis
    by (simp add: modify_checked_accepted [OF True a] modify_assign_eq [OF idx' c'])
qed

lemma wf_world_ref: "wf_world w \<Longrightarrow> c \<in> set (contacts w) \<Longrightarrow> c < length (heap w)"
  by (simp add: wf_world_def list_all_iff)

lemma entered_blank: "strip x = [] \<Longrightarrow> entered cur x = cur"
  by (simp add: entered_def)

lemma pair_search:
  "search_contact ''jane'' False (pair_world\<lparr>stdin := xs\<rparr>) = (Inr [0], pair_world\<lparr>stdin := xs\<rparr>)"
  by (simp add: search_contact_def Let_def bind_def return_def contact_matches_def obj_def
      pair_world_def string_eval)

lemma twin_search:
  "search_contact ''jane'' False (twin_world\<lparr>stdin := xs\<rparr>) = (Inr [0, 1], twin_world\<lparr>stdin := xs\<rparr>)"
  by (simp add: search_contact_def Let_def bind_def return_def contact_matches_def obj_def
      twin_world_def string_eval)

lemma blank_and_yes:
  "strip [] = []" "lower (strip ''y'') = ''y''" "lower (strip ''n'') \<noteq> ''y''"
  "strip '' 777 '' = ''777''" "is_valid_phone ''777''"
  by (simp_all add: string_eval is_space_def whitespace_def validator_eval)

lemma pair_wf: "wf_world (pair_world\<lparr>stdin := xs\<rparr>)"
  by (simp add: wf_world_def pair_world_def)

lemma twin_wf: "wf_world (twin_world\<lparr>stdin := xs\<rparr>)"
  by (simp add: wf_world_def twin_world_def)

text \<open>
  C7. Take a well-formed store, a query whose selection yields the record \<open>c\<close>, the
  confirmation \<^verbatim>\<open>y\<close>, and four lines each of which is blank or valid; if the candidate
  is a duplicate, let the override be accepted. Then \<^verbatim>\<open>modify_contact\<close> returns normally
  and every field of \<open>c\<close> is its old value where the line was blank and the stripped line
  where it was not, each field by itself. In particular, with the first name, the last
  name and the e-mail address left blank, the record differs from what it was in the
  phone number only.
\<close>

theorem modify_updates_or_keeps:
  assumes wf: "wf_world w"
    and search: "search_contact q False w = (Inr rs, w)"
    and sel: "select_contact_from_results rs w = (Inr c, w1)"
    and inp: "stdin w1 = cfm # a # b # p # d # rest"
    and yes: "lower (strip cfm) = ''y''"
    and ok: "strip a = [] \<or> is_valid_name (strip a)" "strip b = [] \<or> is_valid_name (strip b)"
      "strip p = [] \<or> is_valid_phone (strip p)" "strip d = [] \<or> is_valid_email (strip d)"
    and ovr: "\<not> is_duplicate (entered (first_name (obj w c)) a)
          (entered (last_name (obj w c)) b) (entered (phone_number (obj w c)) p)
          (entered (email (obj w c)) d) w
      \<or> (\<exists>ans tl. rest = ans # tl \<and> lower (strip ans) = ''y'')"
  shows "fst (modify_contact q w) = Inr ()
    \<and> obj (snd (modify_contact q w)) c =
        \<lparr>first_name = entered (first_name (obj w c)) a,
         last_name = entered (last_name (obj w c)) b,
         phone_number = entered (phone_number (obj w c)) p,
         email = entered (email (obj w c)) d\<rparr>
    \<and> (strip a = [] \<and> strip b = [] \<and> strip d = [] \<longrightarrow>
        obj (snd (modify_contact q w)) c =
          (obj w c)\<lparr>phone_number := entered (phone_number (obj w c)) p\<rparr>)"
proof -
  from modify_contact_run [OF search sel inp yes ok] obtain i w3 where run:
    "modify_contact q w =
       modify_checked i (entered (first_name (obj w c)) a) (entered (last_name (obj w c)) b)
         (entered (phone_number (obj w c)) p) (entered (email (obj w c)) d) w3"
    and idx: "list_index (contacts w3) c = Inr i" and mem: "c \<in> set (contacts w)"
    and fr: "heap w3 = heap w" "contacts w3 = contacts w" "stdin w3 = rest"
    by blast
  from wf_world_ref [OF wf mem] fr have c: "c < length (heap w3)"
    by simp
  from ovr have ovr3: "\<not> is_duplicate (entered (first_name (obj w c)) a)
          (entered (last_name (obj w c)) b) (entered (phone_number (obj w c)) p)
          (entered (email (obj w c)) d) w3
      \<or> (\<exists>ans tl. stdin w3 = ans # tl \<and> lower (strip ans) = ''y'')"
    by (simp add: is_duplicate_cong [OF fr(1,2)] fr(3))
  from modify_checked_done [OF idx c ovr3] c have res: "fst (modify_contact q w) = Inr ()"
    "obj (snd (modify_contact q w)) c =
        \<lparr>first_name = entered (first_name (obj w c)) a,
         last_name = entered (last_name (obj w c)) b,
         phone_number = entered (phone_number (obj w c)) p,
         email = entered (email (obj w c)) d\<rparr>"
    by (simp_all add: run obj_def)
  then show ?thesis
    by (simp add: entered_blank)
qed

theorem modify_updates_or_keeps_witness:
  "fst (modify_contact ''jane'' (pair_world\<lparr>stdin := [''y'', [], [], '' 777 '', []]\<rparr>))
     = Inr ()
   \<and> obj (snd (modify_contact ''jane''
        (pair_world\<lparr>stdin := [''y'', [], [], '' 777 '', []]\<rparr>))) 0
     = \<lparr>first_name = ''Jane'', last_name = ''Roe'', phone_number = ''777'',
        email = ''jane@x.com''\<rparr>"
proof -
  let ?W = "pair_world\<lparr>stdin := [''y'', [], [], '' 777 '', []]\<rparr>"
  have sel: "select_contact_from_results [0] ?W = (Inr 0, ?W)"
    by (rule select_single)
  have inp: "stdin ?W = ''y'' # [] # [] # '' 777 '' # [] # []"
    by simp
  have ok: "strip [] = [] \<or> is_valid_name (strip [])"
    "strip '' 777 '' = [] \<or> is_valid_phone (strip '' 777 '')"
    "strip [] = [] \<or> is_valid_email (strip [])"
    by (simp_all add: blank_and_yes)
  have c0: "obj pair_world 0 = \<lparr>first_name = ''Jane'', last_name = ''Roe'',
      phone_number = ''555'', email = ''jane@x.com''\<rparr>"
    by (simp add: pair_world_def obj_def)
  have ovr: "\<not> is_duplicate (entered (first_name (obj ?W 0)) [])
          (entered (last_name (obj ?W 0)) []) (entered (phone_number (obj ?W 0)) '' 777 '')
          (entered (email (obj ?W 0)) []) ?W
      \<or> (\<exists>ans tl. [] = ans # tl \<and> lower (strip ans) = ''y'')"
    by (simp add: entered_def blank_and_yes c0 is_duplicate_def) (simp add: pair_world_def obj_def)
  from modify_updates_or_keeps [OF pair_wf pair_search sel inp blank_and_yes(2)
      ok(1) ok(1) ok(2) ok(3) ovr]
  show ?thesis
    by (simp add: entered_def blank_and_yes c0)
qed

text \<open>
  C2, as the code has it. The duplicate check of \<^verbatim>\<open>modify_contact\<close> runs over the whole
  store, the record being modified included: the candidate is a duplicate if and only if
  some record of the store has its four values. So a modification that leaves every field
  as it is always finds a duplicate, the record itself; when the override is then declined
  the objects and the file stay as they were and the answer has been read. Only a
  candidate equal to no record of the store is written without the question, and then no
  further line is read.
\<close>

theorem modify_duplicate_check_whole_store:
  assumes wf: "wf_world w"
    and search: "search_contact q False w = (Inr rs, w)"
    and sel: "select_contact_from_results rs w = (Inr c, w1)"
    and inp: "stdin w1 = cfm # a # b # p # d # rest"
    and yes: "lower (strip cfm) = ''y''"
    and ok: "strip a = [] \<or> is_valid_name (strip a)" "strip b = [] \<or> is_valid_name (strip b)"
      "strip p = [] \<or> is_valid_phone (strip p)" "strip d = [] \<or> is_valid_email (strip d)"
  shows "(is_duplicate (entered (first_name (obj w c)) a) (entered (last_name (obj w c)) b)
          (entered (phone_number (obj w c)) p) (entered (email (obj w c)) d) w
        \<longleftrightarrow> (\<exists>r\<in>set (contacts w). obj w r =
              \<lparr>first_name = entered (first_name (obj w c)) a,
               last_name = entered (last_name (obj w c)) b,
               phone_number = entered (phone_number (obj w c)) p,
               email = entered (email (obj w c)) d\<rparr>))
    \<and> (strip a = [] \<and> strip b = [] \<and> strip p = [] \<and> strip d = [] \<longrightarrow>
        is_duplicate (entered (first_name (obj w c)) a) (entered (last_name (obj w c)) b)
          (entered (phone_number (obj w c)) p) (entered (email (obj w c)) d) w)
    \<and> (is_duplicate (entered (first_name (obj w c)) a) (entered (last_name (obj w c)) b)
          (entered (phone_number (obj w c)) p) (entered (email (obj w c)) d) w
        \<longrightarrow> (\<forall>ans tl. rest = ans # tl \<and> lower (strip ans) \<noteq> ''y'' \<longrightarrow>
          fst (modify_contact q w) = Inr ()
          \<and> heap (snd (modify_contact q w)) = heap w
          \<and> file_contents (snd (modify_contact q w)) = file_contents w
          \<and> stdin (snd (modify_contact q w)) = tl
          \<and> modify_question \<in> set (stdout (snd (modify_contact q w)))))
    \<and> (\<not> is_duplicate (entered (first_name (obj w c)) a) (entered (last_name (obj w c)) b)
          (entered (phone_number (obj w c)) p) (entered (email (obj w c)) d) w
        \<longrightarrow> fst (modify_contact q w) = Inr ()
          \<and> stdin (snd (modify_contact q w)) = rest
          \<and> obj (snd (modify_contact q w)) c =
              \<lparr>first_name = entered (first_name (obj w c)) a,
               last_name = entered (last_name (obj w c)) b,
               phone_number = entered (phone_number (obj w c)) p,
               email = entered (email (obj w c)) d\<rparr>)"
proof -
  let ?f = "entered (first_name (obj w c)) a" and ?l = "entered (last_name (obj w c)) b"
  let ?p = "entered (phone_number (obj w c)) p" and ?e = "entered (email (obj w c)) d"
  let ?dup = "\<lambda>w. is_duplicate ?f ?l ?p ?e w"
  let ?cand = "\<lparr>first_name = ?f, last_name = ?l, phone_number = ?p, email = ?e\<rparr>"
  from modify_contact_run [OF search sel inp yes ok] obtain i w3 where run:
    "modify_contact q w = modify_checked i ?f ?l ?p ?e w3"
    and idx: "list_index (contacts w3) c = Inr i" and mem: "c \<in> set (contacts w)"
    and fr: "heap w3 = heap w" "contacts w3 = contacts w" "file_contents w3 = file_contents w"
      "stdin w3 = rest"
    by blast
  from wf_world_ref [OF wf mem] fr have c: "c < length (heap w3)"
    by simp
  have dup3: "?dup w3 = ?dup w"
    by (rule is_duplicate_cong [OF fr(1,2)])
  have whole: "?dup w \<longleftrightarrow> (\<exists>r\<in>set (contacts w). obj w r = ?cand)"
    by (rule is_duplicate_iff)
  have unchanged: "?dup w"
    if "strip a = [] \<and> strip b = [] \<and> strip p = [] \<and> strip d = []"
  proof -
    from that have "obj w c = ?cand"
      by (cases "obj w c") (simp add: entered_blank)
    with mem whole show ?thesis
      by blast
  qed
  have declined: "fst (modify_contact q w) = Inr ()
          \<and> heap (snd (modify_contact q w)) = heap w
          \<and> file_contents (snd (modify_contact q w)) = file_contents w
          \<and> stdin (snd (modify_contact q w)) = tl
          \<and> modify_question \<in> set (stdout (snd (modify_contact q w)))"
    if "?dup w" "rest = ans # tl" "lower (strip ans) \<noteq> ''y''" for ans tl
  proof -
    from that fr dup3 have "?dup w3" "stdin w3 = ans # tl"
      by simp_all
    from modify_checked_declined [OF this that(3)] fr show ?thesis
      by (simp add: run)
  qed
  have clear: "fst (modify_contact q w) = Inr ()
          \<and> stdin (snd (modify_contact q w)) = rest
          \<and> obj (snd (modify_contact q w)) c = ?cand"
    if "\<not> ?dup w"
  proof -
    from that dup3 have "\<not> ?dup w3"
      by simp
    from modify_checked_clear [OF this] modify_assign_eq [OF idx c] fr c show ?thesis
      by (simp add: run obj_def)
  qed
  from whole unchanged declined clear show ?thesis
    by blast
qed

theorem modify_duplicate_check_whole_store_witness:
  "heap (snd (modify_contact ''jane'' (pair_world\<lparr>stdin := [''y'', [], [], [], [], ''n'']\<rparr>)))
     = heap pair_world
   \<and> stdin (snd (modify_contact ''jane''
        (pair_world\<lparr>stdin := [''y'', [], [], [], [], ''n'']\<rparr>))) = []
   \<and> modify_question \<in> set (stdout (snd (modify_contact ''jane''
        (pair_world\<lparr>stdin := [''y'', [], [], [], [], ''n'']\<rparr>))))"
proof -
  let ?W = "pair_world\<lparr>stdin := [''y'', [], [], [], [], ''n'']\<rparr>"
  have sel: "select_contact_from_results [0] ?W = (Inr 0, ?W)"
    by (rule select_single)
  have inp: "stdin ?W = ''y'' # [] # [] # [] # [] # [''n'']"
    by simp
  have ok: "strip [] = [] \<or> is_valid_name (strip [])" "strip [] = [] \<or> is_valid_phone (strip [])"
    "strip [] = [] \<or> is_valid_email (strip [])"
    by (simp_all add: blank_and_yes)
  note th = modify_duplicate_check_whole_store [OF pair_wf pair_search sel inp
      blank_and_yes(2) ok(1) ok(1) ok(2) ok(3)]
  from th [THEN conjunct2, THEN conjunct1] blank_and_yes(1)
  have dup: "is_duplicate (entered (first_name (obj ?W 0)) []) (entered (last_name (obj ?W 0)) [])
      (entered (phone_number (obj ?W 0)) []) (entered (email (obj ?W 0)) []) ?W"
    by (simp only: simp_thms)
  from th [THEN conjunct2, THEN conjunct2, THEN conjunct1, rule_format, OF dup,
      of "''n''" "[]"] blank_and_yes(3)
  show ?thesis
    by (simp add: pair_world_def)
qed

text \<open>
  C2 as the specification states it fails: in a store of two different records, modifying
  the first with every field left blank makes a candidate that equals no other record,
  and yet the override question is asked; answered with \<^verbatim>\<open>n\<close>, the modification is
  cancelled.
\<close>

theorem modify_unchanged_counterexample:
  "modify_contact ''jane'' (pair_world\<lparr>stdin := [''y'', [], [], [], [], ''n'']\<rparr>) =
     (Inr (), pair_world\<lparr>stdin := [],
        stdout := [Line (CHR 0x0A # ''Selected contact to modify:''),
          Line ''Jane Roe, Phone: 555, Email: jane@x.com'',
          Colored ''Are you sure you want to modify this contact? (y/n): '' ''red'',
          Prompt ''Enter new first name (leave blank to keep current): '',
          Prompt ''Enter new last name (leave blank to keep current): '',
          Prompt ''Enter new phone number (leave blank to keep current): '',
          Prompt ''Enter new email (leave blank to keep current): '',
          Colored ''This contact already exists. Do you want to update it anyway? (y/n): ''
            ''red'',
          Colored ''Modification cancelled due to duplicate contact.'' ''red'']\<rparr>)
   \<and> filter (\<lambda>r. r \<noteq> 0 \<and> obj pair_world r = obj pair_world 0) (contacts pair_world) = []"
proof -
  let ?W = "pair_world\<lparr>stdin := [''y'', [], [], [], [], ''n'']\<rparr>"
  let ?out2 = "[Line (CHR 0x0A # ''Selected contact to modify:''),
          Line ''Jane Roe, Phone: 555, Email: jane@x.com'',
          Colored ''Are you sure you want to modify this contact? (y/n): '' ''red'']"
  let ?out3 = "?out2 @ [Prompt ''Enter new first name (leave blank to keep current): '',
          Prompt ''Enter new last name (leave blank to keep current): '',
          Prompt ''Enter new phone number (leave blank to keep current): '',
          Prompt ''Enter new email (leave blank to keep current): '']"
  let ?W2 = "pair_world\<lparr>stdin := [[], [], [], [], ''n''], stdout := ?out2\<rparr>"
  let ?W3 = "pair_world\<lparr>stdin := [''n''], stdout := ?out3\<rparr>"
  have sel: "select_contact_from_results
      (filter (\<lambda>r. contact_matches (lower ''jane'') (obj ?W r)) (contacts ?W)) ?W = (Inr 0, ?W)"
    using pair_search [of "[''y'', [], [], [], [], ''n'']"]
    by (simp add: search_result select_single)
  have c0: "obj pair_world 0 = \<lparr>first_name = ''Jane'', last_name = ''Roe'',
      phone_number = ''555'', email = ''jane@x.com''\<rparr>"
    by (simp add: pair_world_def obj_def)
  have out: "stdout pair_world = []"
    by (simp add: pair_world_def)
  have idx: "list_index (contacts ?W2) 0 = Inr 0"
    by (simp add: pair_world_def)
  have dup: "is_duplicate ''Jane'' ''Roe'' ''555'' ''jane@x.com'' ?W3"
    by (simp add: is_duplicate_def pair_world_def obj_def)
  have "modify_contact ''jane'' ?W =
     modify_selected 0
       (?W\<lparr>stdin := [[], [], [], [], ''n''],
           stdout := stdout ?W @
             [Line (CHR 0x0A # ''Selected contact to modify:''), Line (contact_str (obj ?W 0)),
              Colored ''Are you sure you want to modify this contact? (y/n): '' ''red'']\<rparr>)"
    by (rule modify_contact_eq [OF sel, where cfm = "''y''"]) (simp, rule blank_and_yes)
  then have step1: "modify_contact ''jane'' ?W = modify_selected 0 ?W2"
    by (simp add: out c0 contact_str_def)
  have "modify_selected 0 ?W2 =
     modify_checked 0 (entered (first_name (obj ?W2 0)) []) (entered (last_name (obj ?W2 0)) [])
       (entered (phone_number (obj ?W2 0)) []) (entered (email (obj ?W2 0)) [])
       (?W2\<lparr>stdin := [''n''],
          stdout := stdout ?W2 @
            [Prompt ''Enter new first name (leave blank to keep current): '',
             Prompt ''Enter new last name (leave blank to keep current): '',
             Prompt ''Enter new phone number (leave blank to keep current): '',
             Prompt ''Enter new email (leave blank to keep current): '']\<rparr>)"
    by (rule modify_selected_eq [OF idx]) (simp_all add: blank_and_yes)
  then have step2: "modify_selected 0 ?W2 =
      modify_checked 0 ''Jane'' ''Roe'' ''555'' ''jane@x.com'' ?W3"
    by (simp add: entered_def blank_and_yes c0)
  have "modify_checked 0 ''Jane'' ''Roe'' ''555'' ''jane@x.com'' ?W3 =
     (Inr (), ?W3\<lparr>stdin := [],
        stdout := stdout ?W3 @ [modify_question,
          Colored ''Modification cancelled due to duplicate contact.'' ''red'']\<rparr>)"
    by (rule modify_checked_declined [OF dup, where ans = "''n''"]) (simp, rule blank_and_yes)
  then have step3: "modify_checked 0 ''Jane'' ''Roe'' ''555'' ''jane@x.com'' ?W3 =
     (Inr (), pair_world\<lparr>stdin := [],
        stdout := ?out3 @ [modify_question,
          Colored ''Modification cancelled due to duplicate contact.'' ''red'']\<rparr>)"
    by simp
  have other: "filter (\<lambda>r. r \<noteq> 0 \<and> obj pair_world r = obj pair_world 0)
      (contacts pair_world) = []"
    by (simp add: pair_world_def obj_def)
  from step1 step2 step3 other show ?thesis
    by (simp add: modify_question_def)
qed

lemma delete_by_identity:
  assumes wf: "wf_world w"
    and search: "search_contact q False w = (Inr rs, w)"
    and sel: "select_contact_from_results rs w = (Inr c, w1)"
    and inp: "stdin w1 = cfm # rest"
    and yes: "lower (strip cfm) = ''y''"
    and twin: "t \<in> set (contacts w)" "t \<noteq> c"
  shows "fst (delete_contact q w) = Inr ()
    \<and> contacts (snd (delete_contact q w)) = remove1 c (contacts w)
    \<and> c \<notin> set (contacts (snd (delete_contact q w)))
    \<and> t \<in> set (contacts (snd (delete_contact q w)))
    \<and> obj (snd (delete_contact q w)) t = obj w t"
proof -
  from search have rs: "rs = filter (\<lambda>r. contact_matches (lower q) (obj w r)) (contacts w)"
    by (simp add: search_result)
  from select_frame [OF sel] have fr: "heap w1 = heap w"
    by simp
  from wf have d: "distinct (contacts w)"
    by (simp add: wf_world_def)
  from delete_contact_eq [OF sel [unfolded rs] inp yes] fr d twin show ?thesis
    by (simp add: obj_def)
qed

lemma modify_by_identity:
  assumes wf: "wf_world w"
    and search: "search_contact q False w = (Inr rs, w)"
    and sel: "select_contact_from_results rs w = (Inr c, w1)"
    and inp: "stdin w1 = cfm # a # b # p # d # rest"
    and yes: "lower (strip cfm) = ''y''"
    and ok: "strip a = [] \<or> is_valid_name (strip a)" "strip b = [] \<or> is_valid_name (strip b)"
      "strip p = [] \<or> is_valid_phone (strip p)" "strip d = [] \<or> is_valid_email (strip d)"
    and ovr: "\<not> is_duplicate (entered (first_name (obj w c)) a)
          (entered (last_name (obj w c)) b) (entered (phone_number (obj w c)) p)
          (entered (email (obj w c)) d) w
      \<or> (\<exists>ans tl. rest = ans # tl \<and> lower (strip ans) = ''y'')"
    and twin: "t \<noteq> c"
  shows "fst (modify_contact q w) = Inr ()
    \<and> contacts (snd (modify_contact q w)) = contacts w
    \<and> obj (snd (modify_contact q w)) c =
        \<lparr>first_name = entered (first_name (obj w c)) a,
         last_name = entered (last_name (obj w c)) b,
         phone_number = entered (phone_number (obj w c)) p,
         email = entered (email (obj w c)) d\<rparr>
    \<and> obj (snd (modify_contact q w)) t = obj w t"
proof -
  from modify_contact_run [OF search sel inp yes ok] obtain i w3 where run:
    "modify_contact q w =
       modify_checked i (entered (first_name (obj w c)) a) (entered (last_name (obj w c)) b)
         (entered (phone_number (obj w c)) p) (entered (email (obj w c)) d) w3"
    and idx: "list_index (contacts w3) c = Inr i" and mem: "c \<in> set (contacts w)"
    and fr: "heap w3 = heap w" "contacts w3 = contacts w" "stdin w3 = rest"
    by blast
  from wf_world_ref [OF wf mem] fr have c: "c < length (heap w3)"
    by simp
  from ovr have ovr3: "\<not> is_duplicate (entered (first_name (obj w c)) a)
          (entered (last_name (obj w c)) b) (entered (phone_number (obj w c)) p)
          (entered (email (obj w c)) d) w3
      \<or> (\<exists>ans tl. stdin w3 = ans # tl \<and> lower (strip ans) = ''y'')"
    by (simp add: is_duplicate_cong [OF fr(1,2)] fr(3))
  from modify_checked_done [OF idx c ovr3] c fr twin show ?thesis
    by (simp add: run obj_def)
qed

text \<open>
  C10. \<^verbatim>\<open>list.index\<close> and \<^verbatim>\<open>list.remove\<close> find the selected object itself. When the store
  holds another object \<open>t\<close> with the same four values as the selected object \<open>c\<close>,
  \<^verbatim>\<open>delete_contact\<close> takes \<open>c\<close> out of the list and leaves \<open>t\<close> in it, unchanged, and
  \<^verbatim>\<open>modify_contact\<close> writes the new values into \<open>c\<close> and leaves \<open>t\<close> and the list as
  they were.
\<close>

theorem modify_delete_by_identity:
  "(wf_world w \<and> search_contact q False w = (Inr rs, w)
      \<and> select_contact_from_results rs w = (Inr c, w1)
      \<and> stdin w1 = cfm # rest \<and> lower (strip cfm) = ''y''
      \<and> t \<in> set (contacts w) \<and> t \<noteq> c \<and> obj w t = obj w c \<longrightarrow>
    fst (delete_contact q w) = Inr ()
    \<and> contacts (snd (delete_contact q w)) = remove1 c (contacts w)
    \<and> c \<notin> set (contacts (snd (delete_contact q w)))
    \<and> t \<in> set (contacts (snd (delete_contact q w)))
    \<and> obj (snd (delete_contact q w)) t = obj w t)
   \<and> (wf_world w \<and> search_contact q False w = (Inr rs, w)
      \<and> select_contact_from_results rs w = (Inr c, w1)
      \<and> stdin w1 = cfm # a # b # p # d # rest \<and> lower (strip cfm) = ''y''
      \<and> (strip a = [] \<or> is_valid_name (strip a)) \<and> (strip b = [] \<or> is_valid_name (strip b))
      \<and> (strip p = [] \<or> is_valid_phone (strip p)) \<and> (strip d = [] \<or> is_valid_email (strip d))
      \<and> (\<not> is_duplicate (entered (first_name (obj w c)) a)
            (entered (last_name (obj w c)) b) (entered (phone_number (obj w c)) p)
            (entered (email (obj w c)) d) w
          \<or> (\<exists>ans tl. rest = ans # tl \<and> lower (strip ans) = ''y''))
      \<and> t \<noteq> c \<and> obj w t = obj w c \<longrightarrow>
    fst (modify_contact q w) = Inr ()
    \<and> contacts (snd (modify_contact q w)) = contacts w
    \<and> obj (snd (modify_contact q w)) c =
        \<lparr>first_name = entered (first_name (obj w c)) a,
         last_name = entered (last_name (obj w c)) b,
         phone_number = entered (phone_number (obj w c)) p,
         email = entered (email (obj w c)) d\<rparr>
    \<and> obj (snd (modify_contact q w)) t = obj w t)"
proof ((rule conjI; rule impI), goal_cases)
  case 1
  then show ?case
    by (elim conjE) (rule delete_by_identity)
next
  case 2
  then show ?case
    by (elim conjE) (rule modify_by_identity; assumption)
qed

theorem modify_delete_by_identity_witness:
  "contacts (snd (delete_contact ''jane'' (twin_world\<lparr>stdin := [''2'', ''y'']\<rparr>))) = [0]
   \<and> obj (snd (modify_contact ''jane''
        (twin_world\<lparr>stdin := [''2'', ''y'', [], [], '' 777 '', []]\<rparr>))) 1
     = \<lparr>first_name = ''Jane'', last_name = ''Roe'', phone_number = ''777'',
        email = ''jane@x.com''\<rparr>
   \<and> obj (snd (modify_contact ''jane''
        (twin_world\<lparr>stdin := [''2'', ''y'', [], [], '' 777 '', []]\<rparr>))) 0
     = \<lparr>first_name = ''Jane'', last_name = ''Roe'', phone_number = ''555'',
        email = ''jane@x.com''\<rparr>"
proof -
  let ?D = "twin_world\<lparr>stdin := [''2'', ''y'']\<rparr>"
  let ?M = "twin_world\<lparr>stdin := [''2'', ''y'', [], [], '' 777 '', []]\<rparr>"
  let ?D1 = "?D\<lparr>stdin := [''y''],
    stdout := stdout ?D @ listing ?D 0 [0, 1] @ [Prompt select_prompt]\<rparr>"
  let ?M1 = "?M\<lparr>stdin := [''y'', [], [], '' 777 '', []],
    stdout := stdout ?M @ listing ?M 0 [0, 1] @ [Prompt select_prompt]\<rparr>"
  have two: "py_int ''2'' = Some 2"
    by (simp add: int_eval)
  have seld: "select_contact_from_results [0, 1] ?D = (Inr 1, ?D1)"
    using select_valid_index [where rs = "[0, 1]" and w = ?D and x = "''2''" and xs = "[''y'']"
        and i = 2] two
    by simp
  have selm: "select_contact_from_results [0, 1] ?M = (Inr 1, ?M1)"
    using select_valid_index [where rs = "[0, 1]" and w = ?M and x = "''2''"
        and xs = "[''y'', [], [], '' 777 '', []]" and i = 2] two
    by simp
  have inpd: "stdin ?D1 = ''y'' # []" and inpm: "stdin ?M1 = ''y'' # [] # [] # '' 777 '' # [] # []"
    by simp_all
  have ok: "strip [] = [] \<or> is_valid_name (strip [])"
    "strip '' 777 '' = [] \<or> is_valid_phone (strip '' 777 '')"
    "strip [] = [] \<or> is_valid_email (strip [])"
    by (simp_all add: blank_and_yes)
  have objs: "obj twin_world 0 = \<lparr>first_name = ''Jane'', last_name = ''Roe'',
      phone_number = ''555'', email = ''jane@x.com''\<rparr>"
    "obj twin_world (Suc 0) = \<lparr>first_name = ''Jane'', last_name = ''Roe'',
      phone_number = ''555'', email = ''jane@x.com''\<rparr>"
    by (simp_all add: twin_world_def obj_def)
  have memd: "0 \<in> set (contacts ?D)" and neq: "(0::nat) \<noteq> 1"
    by (simp_all add: twin_world_def)
  have eqd: "obj ?D 0 = obj ?D 1" and eqm: "obj ?M 0 = obj ?M 1"
    by (simp_all add: objs)
  have ovr: "\<not> is_duplicate (entered (first_name (obj ?M 1)) [])
          (entered (last_name (obj ?M 1)) []) (entered (phone_number (obj ?M 1)) '' 777 '')
          (entered (email (obj ?M 1)) []) ?M
      \<or> (\<exists>ans tl. [] = ans # tl \<and> lower (strip ans) = ''y'')"
    by (simp add: entered_def blank_and_yes objs is_duplicate_def) (simp add: twin_world_def obj_def)
  note th = modify_delete_by_identity
  have d: "fst (delete_contact ''jane'' ?D) = Inr ()
    \<and> contacts (snd (delete_contact ''jane'' ?D)) = remove1 1 (contacts ?D)
    \<and> 1 \<notin> set (contacts (snd (delete_contact ''jane'' ?D)))
    \<and> 0 \<in> set (contacts (snd (delete_contact ''jane'' ?D)))
    \<and> obj (snd (delete_contact ''jane'' ?D)) 0 = obj ?D 0"
    by (rule th [THEN conjunct1, rule_format])
      (intro conjI, rule twin_wf, rule twin_search, rule seld, rule inpd,
        rule blank_and_yes(2), rule memd, rule neq, rule eqd)
  have m: "fst (modify_contact ''jane'' ?M) = Inr ()
    \<and> contacts (snd (modify_contact ''jane'' ?M)) = contacts ?M
    \<and> obj (snd (modify_contact ''jane'' ?M)) 1 =
        \<lparr>first_name = entered (first_name (obj ?M 1)) [],
         last_name = entered (last_name (obj ?M 1)) [],
         phone_number = entered (phone_number (obj ?M 1)) '' 777 '',
         email = entered (email (obj ?M 1)) []\<rparr>
    \<and> obj (snd (modify_contact ''jane'' ?M)) 0 = obj ?M 0"
    by (rule th [THEN conjunct2, rule_format])
      (intro conjI, rule twin_wf, rule twin_search, rule selm, rule inpm,
        rule blank_and_yes(2), rule ok(1), rule ok(1), rule ok(2), rule ok(3), rule ovr,
        rule neq, rule eqm)
  from d m show ?thesis
    by (simp add: entered_def blank_and_yes objs) (simp add: twin_world_def)
qed

section \<open>The character tables at work\<close>

text \<open>
  \<^verbatim>\<open>int\<close> drops the no-break space and the next-line control but not the separator
  0x1C, takes single underscores between digits, and no blank after the sign.
\<close>

lemma py_int_examples:
  "py_int [CHR 0xA0, CHR ''5'', CHR 0x85] = Some 5"
  "py_int [CHR 0x1C, CHR ''2''] = None"
  "py_int ''1_0'' = Some 10"
  "py_int ''1__0'' = None"
  "py_int ''-0'' = Some 0"
  "py_int ''+ 1'' = None"
  "py_int '' +5 '' = Some 5"
  by (simp_all add: int_eval)

text \<open>A text of more digits than the limit is no number.\<close>

lemma py_int_over_limit:
  assumes "int_max_str_digits < n"
  shows "py_int (replicate n (CHR ''7'')) = None"
proof -
  from assms obtain m where n: "n = Suc m"
    by (cases n) auto
  have "int_strip (replicate n (CHR ''7'')) = CHR ''7'' # replicate m (CHR ''7'')"
    by (simp add: int_strip_def int_whitespace_def dropWhile_replicate n
        flip: replicate_Suc)
  moreover have "parse_number (CHR ''7'' # replicate m (CHR ''7'')) = None"
    using assms by (simp add: parse_number_def is_digit_def n)
  ultimately show ?thesis
    by (simp add: py_int_def)
qed

text \<open>
  \<^verbatim>\<open>\w\<close> takes the letter U+00E9 and not the multiplication sign; \<^verbatim>\<open>str.lower\<close> maps
  U+00C0 to U+00E0 and leaves the multiplication sign and U+00DF alone; \<^verbatim>\<open>str.strip\<close>
  removes the no-break space, the separator 0x1C and the next-line control.
\<close>

lemma is_valid_email_examples:
  "is_valid_email [CHR 0xE9, CHR ''@'', CHR ''b'', CHR ''.'', CHR ''c'']"
  "\<not> is_valid_email [CHR 0xD7, CHR ''@'', CHR ''b'', CHR ''.'', CHR ''c'']"
  "is_valid_email ''a@b.c''"
  by (simp_all add: validator_eval)

lemma lower_examples:
  "lower [CHR 0xC0, CHR ''A'', CHR 0xD7, CHR 0xDF, CHR ''1'']
     = [CHR 0xE0, CHR ''a'', CHR 0xD7, CHR 0xDF, CHR ''1'']"
  by (simp add: string_eval)

lemma strip_examples:
  "strip [CHR 0xA0, CHR 0x1C, CHR ''a'', CHR '' '', CHR ''b'', CHR 0x85] = ''a b''"
  by (simp add: strip_def is_space_def whitespace_def)

end
